theory Spec2Isabelle
  imports Complex_Main
begin

section \<open>Data model of the session context\<close>

text \<open>
  The session context (\<^verbatim>\<open>AuthContextProvider\<close>) holds two pieces of React state, writes the
  default \<^verbatim>\<open>Authorization\<close> header of the HTTP client and talks to the persistent store
  through six wrappers. Every awaited collaborator may throw; what it does in one run is a
  parameter of the model (\<open>env\<close>), so that each \<^verbatim>\<open>try/catch/finally\<close> path of the source
  is a branch of the definitions below.
\<close>

text \<open>
  Modelled from the spec: the declaration \<^verbatim>\<open>UserDTO\<close> (\<^verbatim>\<open>@dtos/UserDTO\<close>) is not among the
  sources. The spec gives a user record an identifier, a name, an e-mail and an optional
  avatar reference. Every field is optional here because the context starts from
  \<^verbatim>\<open>{} as UserDTO\<close>, an object with no field at all.
\<close>

record UserDTO =
  user_id :: "string option"
  name :: "string option"
  email :: "string option"
  avatar :: "string option"

text \<open>The empty sentinel \<^verbatim>\<open>{} as UserDTO\<close>.\<close>

definition empty_user :: UserDTO where
  "empty_user = \<lparr>user_id = None, name = None, email = None, avatar = None\<rparr>"

text \<open>
  Modelled from the spec: the class \<^verbatim>\<open>AppError\<close> (\<^verbatim>\<open>@utils/AppError\<close>) is not among the
  sources. The spec has two kinds of error: a tagged application error carrying a message
  for the user, and any other thrown value.
\<close>

datatype error = AppError string | Failure string

text \<open>The body of the answer to \<^verbatim>\<open>POST /sessions\<close>: either field may be missing.\<close>

record session_data =
  data_user :: "UserDTO option"
  data_token :: "string option"

record photoFile =
  file_name :: string
  file_uri :: string
  file_type :: string

datatype call =
    ApiPostSessions string string
  | ApiPostUsers string string string
  | ApiPatchUsersAvatar photoFile
  | StorageUserSave UserDTO
  | StorageAuthTokenSave string
  | StorageUserRemove
  | StorageAuthTokenRemove
  | StorageUserGet
  | StorageAuthTokenGet
  | LaunchImageLibraryAsync
  | GetInfoAsync string

datatype toast =
    ToastMessage string
  | ToastSignUpFailed
  | ToastPhotoTooLarge
  | ToastPhotoUpdated

text \<open>
  The order of effects matters for the loading-flag discipline, so every state write and
  every awaited call is appended to a trace.
\<close>

datatype event =
    SetIsLoadingUserStorage bool
  | SetUser UserDTO
  | SetAuthorization string
  | Await call
  | SetIsLoading bool
  | SetPhotoIsLoading bool
  | ToastShow toast
  | ConsoleLog error

record world =
  user :: UserDTO
  isLoadingUserStorage :: bool
  Authorization :: "string option"
  stored_user :: "UserDTO option"
  stored_token :: "string option"
  trace :: "event list"

text \<open>
  A freshly mounted provider: \<^verbatim>\<open>useState({} as UserDTO)\<close>, \<^verbatim>\<open>useState(true)\<close>, no default
  header yet, and whatever an earlier run of the application left in the store.
\<close>

definition fresh :: "UserDTO option \<Rightarrow> string option \<Rightarrow> world" where
  "fresh su st = \<lparr>user = empty_user, isLoadingUserStorage = True, Authorization = None,
     stored_user = su, stored_token = st, trace = []\<rparr>"

text \<open>What the awaited collaborators do in one run of an operation.\<close>

record env =
  post_sessions :: "error + session_data"
  user_save :: "error option"
  token_save :: "error option"
  user_remove :: "error option"
  token_remove :: "error option"
  user_get :: "error option"
  token_get :: "error option"

section \<open>Control flow: async functions with try, catch and finally\<close>

type_synonym 'a action = "world \<Rightarrow> (error + 'a) \<times> world"

definition ret :: "'a \<Rightarrow> 'a action" where
  "ret a w = (Inr a, w)"

definition bind_action :: "'a action \<Rightarrow> ('a \<Rightarrow> 'b action) \<Rightarrow> 'b action" where
  "bind_action m f w = (case m w of (Inl e, w') \<Rightarrow> (Inl e, w') | (Inr a, w') \<Rightarrow> f a w')"

definition seq_action :: "unit action \<Rightarrow> 'b action \<Rightarrow> 'b action" where
  "seq_action m n = bind_action m (\<lambda>_. n)"

definition effect :: "(world \<Rightarrow> world) \<Rightarrow> unit action" where
  "effect f w = (Inr (), f w)"

text \<open>\<^verbatim>\<open>try { body } catch (error) { throw error } finally { cleanup }\<close>: the catch clause
  rethrows what it caught, the cleanup runs on both exits.\<close>

definition try_finally :: "'a action \<Rightarrow> (world \<Rightarrow> world) \<Rightarrow> 'a action" where
  "try_finally body cleanup w = (case body w of (r, w') \<Rightarrow> (r, cleanup w'))"

definition emit :: "event \<Rightarrow> world \<Rightarrow> world" where
  "emit e w = w\<lparr>trace := trace w @ [e]\<rparr>"

definition setIsLoadingUserStorage :: "bool \<Rightarrow> world \<Rightarrow> world" where
  "setIsLoadingUserStorage b w = emit (SetIsLoadingUserStorage b) (w\<lparr>isLoadingUserStorage := b\<rparr>)"

definition setUser :: "UserDTO \<Rightarrow> world \<Rightarrow> world" where
  "setUser u w = emit (SetUser u) (w\<lparr>user := u\<rparr>)"

definition setAuthorization :: "string \<Rightarrow> world \<Rightarrow> world" where
  "setAuthorization h w = emit (SetAuthorization h) (w\<lparr>Authorization := Some h\<rparr>)"

text \<open>The events an action adds to the trace.\<close>

definition events_of :: "'a action \<Rightarrow> world \<Rightarrow> event list" where
  "events_of act w = drop (length (trace w)) (trace (snd (act w)))"

section \<open>Collaborators\<close>

text \<open>
  Modelled from the spec: the store wrappers (\<^verbatim>\<open>@storage/storageUser\<close>,
  \<^verbatim>\<open>@storage/storageAuthToken\<close>) are not among the sources. The spec gives the store
  \<^verbatim>\<open>get/save/remove\<close> for a serialized user record under one key and for a token string
  under a second key. A call that throws leaves its key as it was; a get of an absent key
  yields no value.
\<close>

definition storageUserSave :: "error option \<Rightarrow> UserDTO \<Rightarrow> unit action" where
  "storageUserSave outcome u w =
     (let w1 = emit (Await (StorageUserSave u)) w in
      case outcome of Some e \<Rightarrow> (Inl e, w1) | None \<Rightarrow> (Inr (), w1\<lparr>stored_user := Some u\<rparr>))"

definition storageAuthTokenSave :: "error option \<Rightarrow> string \<Rightarrow> unit action" where
  "storageAuthTokenSave outcome t w =
     (let w1 = emit (Await (StorageAuthTokenSave t)) w in
      case outcome of Some e \<Rightarrow> (Inl e, w1) | None \<Rightarrow> (Inr (), w1\<lparr>stored_token := Some t\<rparr>))"

definition storageUserRemove :: "error option \<Rightarrow> unit action" where
  "storageUserRemove outcome w =
     (let w1 = emit (Await StorageUserRemove) w in
      case outcome of Some e \<Rightarrow> (Inl e, w1) | None \<Rightarrow> (Inr (), w1\<lparr>stored_user := None\<rparr>))"

definition storageAuthTokenRemove :: "error option \<Rightarrow> unit action" where
  "storageAuthTokenRemove outcome w =
     (let w1 = emit (Await StorageAuthTokenRemove) w in
      case outcome of Some e \<Rightarrow> (Inl e, w1) | None \<Rightarrow> (Inr (), w1\<lparr>stored_token := None\<rparr>))"

definition storageUserGet :: "error option \<Rightarrow> (UserDTO option) action" where
  "storageUserGet outcome w =
     (let w1 = emit (Await StorageUserGet) w in
      case outcome of Some e \<Rightarrow> (Inl e, w1) | None \<Rightarrow> (Inr (stored_user w), w1))"

definition storageAuthTokenGet :: "error option \<Rightarrow> (string option) action" where
  "storageAuthTokenGet outcome w =
     (let w1 = emit (Await StorageAuthTokenGet) w in
      case outcome of Some e \<Rightarrow> (Inl e, w1) | None \<Rightarrow> (Inr (stored_token w), w1))"

text \<open>\<^verbatim>\<open>api.post('/sessions', { email, password })\<close>: the remote answer is a parameter.\<close>

definition api_post_sessions :: "error + session_data \<Rightarrow> string \<Rightarrow> string \<Rightarrow> session_data action" where
  "api_post_sessions answer em pw w =
     (let w1 = emit (Await (ApiPostSessions em pw)) w in
      case answer of Inl e \<Rightarrow> (Inl e, w1) | Inr d \<Rightarrow> (Inr d, w1))"

section \<open>The session context\<close>

definition userAndTokenUpdate :: "UserDTO \<Rightarrow> string \<Rightarrow> world \<Rightarrow> world" where
  "userAndTokenUpdate userData token w =
     setUser userData (setAuthorization (''Bearer '' @ token) w)"

definition storageUserAndTokenSave :: "env \<Rightarrow> UserDTO \<Rightarrow> string \<Rightarrow> unit action" where
  "storageUserAndTokenSave ev userData token =
     try_finally
       (seq_action (effect (setIsLoadingUserStorage True))
         (seq_action (storageUserSave (user_save ev) userData)
           (storageAuthTokenSave (token_save ev) token)))
       (setIsLoadingUserStorage False)"

text \<open>
  \<^verbatim>\<open>if (data.user && data.token)\<close>: an object is truthy, a missing field is not, and
  neither is the empty string.
\<close>

definition signIn :: "env \<Rightarrow> string \<Rightarrow> string \<Rightarrow> unit action" where
  "signIn ev em pw =
     bind_action (api_post_sessions (post_sessions ev) em pw) (\<lambda>data.
       case data_user data of
         None \<Rightarrow> ret ()
       | Some u \<Rightarrow>
           (case data_token data of
              None \<Rightarrow> ret ()
            | Some t \<Rightarrow>
                if t = [] then ret ()
                else seq_action (storageUserAndTokenSave ev u t)
                       (effect (userAndTokenUpdate u t))))"

definition signOut :: "env \<Rightarrow> unit action" where
  "signOut ev =
     try_finally
       (seq_action (effect (setIsLoadingUserStorage True))
         (seq_action (effect (setUser empty_user))
           (seq_action (storageUserRemove (user_remove ev))
             (storageAuthTokenRemove (token_remove ev)))))
       (setIsLoadingUserStorage False)"

definition updateUserProfile :: "env \<Rightarrow> UserDTO \<Rightarrow> unit action" where
  "updateUserProfile ev userUpdated =
     seq_action (effect (setUser userUpdated)) (storageUserSave (user_save ev) userUpdated)"

text \<open>\<^verbatim>\<open>if (token && userLogged)\<close>: the same truthiness test as in \<open>signIn\<close>.\<close>

definition loadUserData :: "env \<Rightarrow> unit action" where
  "loadUserData ev =
     try_finally
       (seq_action (effect (setIsLoadingUserStorage True))
         (bind_action (storageUserGet (user_get ev)) (\<lambda>userLogged.
           bind_action (storageAuthTokenGet (token_get ev)) (\<lambda>token.
             case token of
               None \<Rightarrow> ret ()
             | Some t \<Rightarrow>
                 if t = [] then ret ()
                 else (case userLogged of
                         None \<Rightarrow> ret ()
                       | Some u \<Rightarrow> effect (userAndTokenUpdate u t))))))
       (setIsLoadingUserStorage False)"

text \<open>
  The answer of the session request as the guard of \<open>signIn\<close> sees it: the user and the
  token when both are there and the token is not the empty string.
\<close>

definition complete_answer :: "env \<Rightarrow> (UserDTO \<times> string) option" where
  "complete_answer ev =
     (case post_sessions ev of
        Inl _ \<Rightarrow> None
      | Inr d \<Rightarrow>
          (case (data_user d, data_token d) of
             (Some u, Some t) \<Rightarrow> if t = [] then None else Some (u, t)
           | _ \<Rightarrow> None))"

text \<open>A run in which no collaborator throws and the server answers with \<open>d\<close>.\<close>

definition all_ok :: "session_data \<Rightarrow> env" where
  "all_ok d = \<lparr>post_sessions = Inr d, user_save = None, token_save = None,
     user_remove = None, token_remove = None, user_get = None, token_get = None\<rparr>"

lemmas action_defs =
  ret_def bind_action_def seq_action_def effect_def try_finally_def emit_def
  setIsLoadingUserStorage_def setUser_def setAuthorization_def
  storageUserSave_def storageAuthTokenSave_def storageUserRemove_def
  storageAuthTokenRemove_def storageUserGet_def storageAuthTokenGet_def
  api_post_sessions_def userAndTokenUpdate_def storageUserAndTokenSave_def

section \<open>Sign-in with an incomplete answer\<close>

text \<open>
  C10. When the request of \<open>signIn\<close> succeeds but the answer lacks the user field or the
  token field, \<open>signIn\<close> returns without an error and the in-memory user, both persisted
  keys, the \<^verbatim>\<open>Authorization\<close> header and the loading flag are what they were.
\<close>

theorem signIn_incomplete_answer_noop:
  assumes "post_sessions ev = Inr d"
    and "data_user d = None \<or> data_token d = None"
  shows "fst (signIn ev em pw w) = Inr ()
    \<and> user (snd (signIn ev em pw w)) = user w
    \<and> stored_user (snd (signIn ev em pw w)) = stored_user w
    \<and> stored_token (snd (signIn ev em pw w)) = stored_token w
    \<and> Authorization (snd (signIn ev em pw w)) = Authorization w
    \<and> isLoadingUserStorage (snd (signIn ev em pw w)) = isLoadingUserStorage w"
  using assms by (auto simp: signIn_def action_defs split: option.splits)

theorem signIn_incomplete_answer_noop_witness:
  "fst (signIn (all_ok \<lparr>data_user = None, data_token = Some ''tok''\<rparr>) ''ana@x.com'' ''123456''
          (fresh None None)) = Inr ()
   \<and> user (snd (signIn (all_ok \<lparr>data_user = None, data_token = Some ''tok''\<rparr>) ''ana@x.com'' ''123456''
          (fresh None None))) = empty_user
   \<and> stored_token (snd (signIn (all_ok \<lparr>data_user = None, data_token = Some ''tok''\<rparr>) ''ana@x.com''
          ''123456'' (fresh None None))) = None
   \<and> Authorization (snd (signIn (all_ok \<lparr>data_user = None, data_token = Some ''tok''\<rparr>) ''ana@x.com''
          ''123456'' (fresh None None))) = None"
  using signIn_incomplete_answer_noop
    [of "all_ok \<lparr>data_user = None, data_token = Some ''tok''\<rparr>"
        "\<lparr>data_user = None, data_token = Some ''tok''\<rparr>" "''ana@x.com''" "''123456''"
        "fresh None None"]
  by (simp add: all_ok_def fresh_def)

section \<open>Sign-out\<close>

text \<open>
  C2 as amended. After every \<open>signOut\<close> the in-memory user is the empty sentinel and the
  loading flag is false, whatever the removals do. Both persisted keys are absent when both
  removals succeed. When the removal of the user record throws, the removal of the token is
  never attempted and both keys are as they were; when the removal of the token throws, the
  user key is absent and the token key is as it was. The thrown error reaches the caller.
\<close>

theorem signOut_final_state:
  "user (snd (signOut ev w)) = empty_user
   \<and> isLoadingUserStorage (snd (signOut ev w)) = False
   \<and> (case user_remove ev of
        Some e \<Rightarrow> fst (signOut ev w) = Inl e
          \<and> stored_user (snd (signOut ev w)) = stored_user w
          \<and> stored_token (snd (signOut ev w)) = stored_token w
      | None \<Rightarrow>
          (case token_remove ev of
             Some e \<Rightarrow> fst (signOut ev w) = Inl e
               \<and> stored_user (snd (signOut ev w)) = None
               \<and> stored_token (snd (signOut ev w)) = stored_token w
           | None \<Rightarrow> fst (signOut ev w) = Inr ()
               \<and> stored_user (snd (signOut ev w)) = None
               \<and> stored_token (snd (signOut ev w)) = None))"
  by (simp add: signOut_def action_defs split: option.splits)

text \<open>A signed-in session used by the concrete runs below.\<close>

definition ana :: UserDTO where
  "ana = \<lparr>user_id = Some ''1'', name = Some ''Ana'', email = Some ''ana@x.com'', avatar = None\<rparr>"

definition signed_in :: world where
  "signed_in = \<lparr>user = ana, isLoadingUserStorage = False, Authorization = Some ''Bearer tok'',
     stored_user = Some ana, stored_token = Some ''tok'', trace = []\<rparr>"

definition user_remove_throws :: env where
  "user_remove_throws = (all_ok \<lparr>data_user = None, data_token = None\<rparr>)
     \<lparr>user_remove := Some (Failure ''storage'')\<rparr>"

theorem signOut_final_state_witness:
  "user (snd (signOut user_remove_throws signed_in)) = empty_user
   \<and> isLoadingUserStorage (snd (signOut user_remove_throws signed_in)) = False
   \<and> fst (signOut user_remove_throws signed_in) = Inl (Failure ''storage'')
   \<and> stored_user (snd (signOut user_remove_throws signed_in)) = Some ana
   \<and> stored_token (snd (signOut user_remove_throws signed_in)) = Some ''tok''"
  using signOut_final_state [of user_remove_throws signed_in]
  by (simp add: user_remove_throws_def all_ok_def signed_in_def)

text \<open>
  The removal of the user record throws: the removal of the token is never attempted and
  the token is still persisted when \<open>signOut\<close> has finished.
\<close>

theorem signOut_keys_survive_throw_counterexample:
  "fst (signOut user_remove_throws signed_in) = Inl (Failure ''storage'')
   \<and> Await StorageAuthTokenRemove \<notin> set (events_of (signOut user_remove_throws) signed_in)
   \<and> stored_token (snd (signOut user_remove_throws signed_in)) = Some ''tok''"
  by (simp add: user_remove_throws_def all_ok_def signed_in_def signOut_def action_defs
        events_of_def)

section \<open>Restoring the session at start\<close>

text \<open>
  C3. For every persisted state the context can leave (it never persists an empty token,
  see \<open>run_token_not_empty\<close> below): after a \<open>loadUserData\<close> that returns normally, if both
  keys are present the in-memory user is the persisted record and the header is \<^verbatim>\<open>Bearer\<close>
  followed by the token exactly as persisted; if either key is absent, the in-memory user
  and the header are what they were, which in the fresh context that calls \<open>loadUserData\<close>
  is the empty sentinel and no header. The loading flag ends false and the store is not
  written.
\<close>

theorem loadUserData_restores:
  assumes "fst (loadUserData ev w) = Inr ()" and "stored_token w \<noteq> Some []"
  shows "(case (stored_user w, stored_token w) of
            (Some u, Some t) \<Rightarrow>
              user (snd (loadUserData ev w)) = u
              \<and> Authorization (snd (loadUserData ev w)) = Some (''Bearer '' @ t)
          | _ \<Rightarrow> user (snd (loadUserData ev w)) = user w
              \<and> Authorization (snd (loadUserData ev w)) = Authorization w)
     \<and> isLoadingUserStorage (snd (loadUserData ev w)) = False
     \<and> stored_user (snd (loadUserData ev w)) = stored_user w
     \<and> stored_token (snd (loadUserData ev w)) = stored_token w"
  using assms
  by (cases "user_get ev"; cases "token_get ev"; cases "stored_user w"; cases "stored_token w")
     (simp_all add: loadUserData_def action_defs Let_def)

definition no_answer :: session_data where
  "no_answer = \<lparr>data_user = None, data_token = None\<rparr>"

theorem loadUserData_restores_witness:
  "fst (loadUserData (all_ok no_answer) (fresh (Some ana) (Some ''tok''))) = Inr ()
   \<and> stored_token (fresh (Some ana) (Some ''tok'')) = Some ''tok''
   \<and> user (snd (loadUserData (all_ok no_answer) (fresh (Some ana) (Some ''tok'')))) = ana
   \<and> Authorization (snd (loadUserData (all_ok no_answer) (fresh (Some ana) (Some ''tok''))))
       = Some ''Bearer tok''
   \<and> fst (loadUserData (all_ok no_answer) (fresh (Some ana) None)) = Inr ()
   \<and> user (snd (loadUserData (all_ok no_answer) (fresh (Some ana) None))) = empty_user
   \<and> Authorization (snd (loadUserData (all_ok no_answer) (fresh (Some ana) None))) = None
   \<and> fst (loadUserData (all_ok no_answer) (fresh None (Some ''tok''))) = Inr ()
   \<and> user (snd (loadUserData (all_ok no_answer) (fresh None (Some ''tok'')))) = empty_user
   \<and> Authorization (snd (loadUserData (all_ok no_answer) (fresh None (Some ''tok'')))) = None"
proof -
  have ok1: "fst (loadUserData (all_ok no_answer) (fresh (Some ana) (Some ''tok''))) = Inr ()"
    by (simp add: loadUserData_def action_defs all_ok_def fresh_def)
  have ne1: "stored_token (fresh (Some ana) (Some ''tok'')) \<noteq> Some []"
    by (simp add: fresh_def)
  have ok2: "fst (loadUserData (all_ok no_answer) (fresh (Some ana) None)) = Inr ()"
    by (simp add: loadUserData_def action_defs all_ok_def fresh_def)
  have ne2: "stored_token (fresh (Some ana) None) \<noteq> Some []"
    by (simp add: fresh_def)
  have ok3: "fst (loadUserData (all_ok no_answer) (fresh None (Some ''tok''))) = Inr ()"
    by (simp add: loadUserData_def action_defs all_ok_def fresh_def)
  have ne3: "stored_token (fresh None (Some ''tok'')) \<noteq> Some []"
    by (simp add: fresh_def)
  show ?thesis
    using ok1 ok2 ok3 loadUserData_restores [OF ok1 ne1] loadUserData_restores [OF ok2 ne2]
      loadUserData_restores [OF ok3 ne3]
    by (simp add: fresh_def)
qed

text \<open>
  A store written from outside the context could hold an empty token; \<open>loadUserData\<close> then
  treats it as absent.
\<close>

lemma loadUserData_empty_token_ignored:
  "fst (loadUserData (all_ok no_answer) (fresh (Some ana) (Some ''''))) = Inr ()
   \<and> user (snd (loadUserData (all_ok no_answer) (fresh (Some ana) (Some '''')))) = empty_user
   \<and> Authorization (snd (loadUserData (all_ok no_answer) (fresh (Some ana) (Some '''')))) = None"
  by (simp add: loadUserData_def action_defs all_ok_def fresh_def)

section \<open>Profile update and restart\<close>

text \<open>A restart keeps the store and nothing else.\<close>

definition restart :: "world \<Rightarrow> world" where
  "restart w = fresh (stored_user w) (stored_token w)"

definition writes_token_or_header :: "event \<Rightarrow> bool" where
  "writes_token_or_header e =
     (case e of
        SetAuthorization _ \<Rightarrow> True
      | Await c \<Rightarrow> (case c of StorageAuthTokenSave _ \<Rightarrow> True
                     | StorageAuthTokenRemove \<Rightarrow> True | _ \<Rightarrow> False)
      | _ \<Rightarrow> False)"

text \<open>
  C4. In a session whose token \<open>t\<close> is persisted, \<open>updateUserProfile u\<close> followed by a restart
  and \<open>loadUserData\<close> (the store calls succeeding) yields the in-memory user \<open>u\<close>; the persisted
  token is still \<open>t\<close> and the restored header is \<^verbatim>\<open>Bearer t\<close>. \<open>updateUserProfile\<close> itself, in
  every run, leaves the token key and the header as they were and issues no write to either.
\<close>

theorem updateUserProfile_round_trip:
  assumes "stored_token w = Some t" and "t \<noteq> []"
    and "user_save ev = None" and "user_get ev' = None" and "token_get ev' = None"
  shows "user (snd (loadUserData ev' (restart (snd (updateUserProfile ev u w))))) = u
    \<and> stored_token (snd (loadUserData ev' (restart (snd (updateUserProfile ev u w))))) = Some t
    \<and> Authorization (snd (loadUserData ev' (restart (snd (updateUserProfile ev u w)))))
        = Some (''Bearer '' @ t)
    \<and> stored_token (snd (updateUserProfile ev0 u w)) = stored_token w
    \<and> Authorization (snd (updateUserProfile ev0 u w)) = Authorization w
    \<and> filter writes_token_or_header (events_of (updateUserProfile ev0 u) w) = []"
  using assms
  by (cases "user_save ev0")
     (simp_all add: updateUserProfile_def loadUserData_def restart_def fresh_def events_of_def
        writes_token_or_header_def action_defs Let_def)

definition ana_renamed :: UserDTO where
  "ana_renamed = ana\<lparr>name := Some ''Ana Maria''\<rparr>"

theorem updateUserProfile_round_trip_witness:
  "user (snd (loadUserData (all_ok no_answer)
      (restart (snd (updateUserProfile (all_ok no_answer) ana_renamed signed_in))))) = ana_renamed
   \<and> stored_token (snd (loadUserData (all_ok no_answer)
      (restart (snd (updateUserProfile (all_ok no_answer) ana_renamed signed_in))))) = Some ''tok''
   \<and> Authorization (snd (loadUserData (all_ok no_answer)
      (restart (snd (updateUserProfile (all_ok no_answer) ana_renamed signed_in)))))
        = Some ''Bearer tok''"
  using updateUserProfile_round_trip
    [of signed_in "''tok''" "all_ok no_answer" "all_ok no_answer" ana_renamed "all_ok no_answer"]
  by (simp add: signed_in_def all_ok_def)

section \<open>Sign-in that fails\<close>

text \<open>
  C5 as amended. When the request throws, when the write of the user record throws, and
  when the write of the token throws (the writes being reached with a complete answer),
  \<open>signIn\<close> fails with the thrown error. Whenever \<open>signIn\<close> fails, the error is the one thrown
  by the request or by a store write, and the in-memory user, the header and the persisted
  token are what they were. The persisted user record is what it was when the request or the
  write of the user record threw; when the write of the token threw, the write of the user
  record had already succeeded and the persisted user record is the one of the answer.
\<close>

theorem signIn_failure_state:
  "(post_sessions ev = Inl e1 \<longrightarrow> fst (signIn ev em pw w) = Inl e1)
   \<and> (complete_answer ev = Some (u, t) \<and> user_save ev = Some e2
        \<longrightarrow> fst (signIn ev em pw w) = Inl e2)
   \<and> (complete_answer ev = Some (u, t) \<and> user_save ev = None \<and> token_save ev = Some e3
        \<longrightarrow> fst (signIn ev em pw w) = Inl e3
          \<and> stored_user (snd (signIn ev em pw w)) = Some u)
   \<and> (fst (signIn ev em pw w) = Inl e \<longrightarrow>
        user (snd (signIn ev em pw w)) = user w
      \<and> Authorization (snd (signIn ev em pw w)) = Authorization w
      \<and> stored_token (snd (signIn ev em pw w)) = stored_token w
      \<and> (case post_sessions ev of
            Inl e' \<Rightarrow> e' = e \<and> stored_user (snd (signIn ev em pw w)) = stored_user w
          | Inr d \<Rightarrow>
              (case user_save ev of
                 Some e' \<Rightarrow> e' = e \<and> stored_user (snd (signIn ev em pw w)) = stored_user w
               | None \<Rightarrow> token_save ev = Some e
                   \<and> stored_user (snd (signIn ev em pw w)) = data_user d)))"
proof (cases "post_sessions ev")
  case (Inl e')
  then show ?thesis
    by (simp add: signIn_def action_defs Let_def complete_answer_def)
next
  case (Inr d)
  then show ?thesis
    by (cases "data_user d"; cases "data_token d"; cases "user_save ev"; cases "token_save ev")
       (auto simp: signIn_def action_defs Let_def complete_answer_def split: if_splits)
qed

definition full_answer :: session_data where
  "full_answer = \<lparr>data_user = Some ana, data_token = Some ''tok''\<rparr>"

definition user_save_throws :: env where
  "user_save_throws = (all_ok full_answer)\<lparr>user_save := Some (Failure ''disk'')\<rparr>"

definition token_save_throws :: env where
  "token_save_throws = (all_ok full_answer)\<lparr>token_save := Some (Failure ''storage'')\<rparr>"

definition request_throws :: env where
  "request_throws = (all_ok full_answer)\<lparr>post_sessions := Inl (AppError ''credentials'')\<rparr>"

theorem signIn_failure_state_witness:
  "fst (signIn request_throws ''ana@x.com'' ''123456'' (fresh None None))
      = Inl (AppError ''credentials'')
   \<and> user (snd (signIn request_throws ''ana@x.com'' ''123456'' (fresh None None))) = empty_user
   \<and> Authorization (snd (signIn request_throws ''ana@x.com'' ''123456'' (fresh None None))) = None
   \<and> stored_token (snd (signIn request_throws ''ana@x.com'' ''123456'' (fresh None None))) = None
   \<and> stored_user (snd (signIn request_throws ''ana@x.com'' ''123456'' (fresh None None))) = None
   \<and> complete_answer user_save_throws = Some (ana, ''tok'')
   \<and> fst (signIn user_save_throws ''ana@x.com'' ''123456'' (fresh None None))
      = Inl (Failure ''disk'')
   \<and> user (snd (signIn user_save_throws ''ana@x.com'' ''123456'' (fresh None None))) = empty_user
   \<and> stored_user (snd (signIn user_save_throws ''ana@x.com'' ''123456'' (fresh None None))) = None
   \<and> complete_answer token_save_throws = Some (ana, ''tok'')
   \<and> fst (signIn token_save_throws ''ana@x.com'' ''123456'' (fresh None None))
      = Inl (Failure ''storage'')
   \<and> user (snd (signIn token_save_throws ''ana@x.com'' ''123456'' (fresh None None))) = empty_user
   \<and> stored_token (snd (signIn token_save_throws ''ana@x.com'' ''123456'' (fresh None None))) = None
   \<and> stored_user (snd (signIn token_save_throws ''ana@x.com'' ''123456'' (fresh None None)))
      = Some ana"
proof -
  have c2: "complete_answer user_save_throws = Some (ana, ''tok'')"
    by (simp add: complete_answer_def user_save_throws_def all_ok_def full_answer_def)
  have c3: "complete_answer token_save_throws = Some (ana, ''tok'')"
    by (simp add: complete_answer_def token_save_throws_def all_ok_def full_answer_def)
  have s2: "user_save user_save_throws = Some (Failure ''disk'')"
    by (simp add: user_save_throws_def)
  have s3: "user_save token_save_throws = None \<and> token_save token_save_throws = Some (Failure ''storage'')"
    by (simp add: token_save_throws_def all_ok_def)
  have p2: "post_sessions user_save_throws = Inr full_answer"
    by (simp add: user_save_throws_def all_ok_def)
  have p3: "post_sessions token_save_throws = Inr full_answer"
    by (simp add: token_save_throws_def all_ok_def)
  have r1: "post_sessions request_throws = Inl (AppError ''credentials'')"
    by (simp add: request_throws_def)
  note a = signIn_failure_state
    [of request_throws "AppError ''credentials''" "''ana@x.com''" "''123456''" "fresh None None"
        ana "''tok''" "Failure ''disk''" "Failure ''storage''" "AppError ''credentials''"]
  note b = signIn_failure_state
    [of user_save_throws "AppError ''credentials''" "''ana@x.com''" "''123456''" "fresh None None"
        ana "''tok''" "Failure ''disk''" "Failure ''storage''" "Failure ''disk''"]
  note c = signIn_failure_state
    [of token_save_throws "AppError ''credentials''" "''ana@x.com''" "''123456''" "fresh None None"
        ana "''tok''" "Failure ''disk''" "Failure ''storage''" "Failure ''storage''"]
  from a r1 have A: "fst (signIn request_throws ''ana@x.com'' ''123456'' (fresh None None))
        = Inl (AppError ''credentials'')
      \<and> user (snd (signIn request_throws ''ana@x.com'' ''123456'' (fresh None None))) = empty_user
      \<and> Authorization (snd (signIn request_throws ''ana@x.com'' ''123456'' (fresh None None))) = None
      \<and> stored_token (snd (signIn request_throws ''ana@x.com'' ''123456'' (fresh None None))) = None
      \<and> stored_user (snd (signIn request_throws ''ana@x.com'' ''123456'' (fresh None None))) = None"
    by (simp add: fresh_def)
  from b c2 s2 p2 have B: "fst (signIn user_save_throws ''ana@x.com'' ''123456'' (fresh None None))
        = Inl (Failure ''disk'')
      \<and> user (snd (signIn user_save_throws ''ana@x.com'' ''123456'' (fresh None None))) = empty_user
      \<and> stored_user (snd (signIn user_save_throws ''ana@x.com'' ''123456'' (fresh None None))) = None"
    by (simp add: fresh_def)
  from c c3 s3 p3 have C: "fst (signIn token_save_throws ''ana@x.com'' ''123456'' (fresh None None))
        = Inl (Failure ''storage'')
      \<and> user (snd (signIn token_save_throws ''ana@x.com'' ''123456'' (fresh None None))) = empty_user
      \<and> stored_token (snd (signIn token_save_throws ''ana@x.com'' ''123456'' (fresh None None))) = None
      \<and> stored_user (snd (signIn token_save_throws ''ana@x.com'' ''123456'' (fresh None None)))
        = Some ana"
    by (simp add: fresh_def)
  from A B C c2 c3 show ?thesis by simp
qed

text \<open>The write of the token throws after the user record has been written.\<close>

theorem signIn_partial_write_counterexample:
  "fst (signIn token_save_throws ''ana@x.com'' ''123456'' (fresh None None))
      = Inl (Failure ''storage'')
   \<and> stored_user (fresh None None) = None
   \<and> stored_user (snd (signIn token_save_throws ''ana@x.com'' ''123456'' (fresh None None)))
      = Some ana"
  by (simp add: token_save_throws_def all_ok_def full_answer_def fresh_def signIn_def
        action_defs Let_def)

section \<open>The loading flag\<close>

definition before_first_await :: "event list \<Rightarrow> event list" where
  "before_first_await es = takeWhile (\<lambda>e. case e of Await _ \<Rightarrow> False | _ \<Rightarrow> True) es"

text \<open>The flag is set to true before the first suspend point.\<close>

definition sets_loading_first :: "event list \<Rightarrow> bool" where
  "sets_loading_first es = (SetIsLoadingUserStorage True \<in> set (before_first_await es))"

definition touches_loading :: "event \<Rightarrow> bool" where
  "touches_loading e = (case e of SetIsLoadingUserStorage _ \<Rightarrow> True | _ \<Rightarrow> False)"

lemma signIn_flag_by_answer:
  "(case complete_answer ev of
      None \<Rightarrow>
        events_of (signIn ev em pw) w = [Await (ApiPostSessions em pw)]
        \<and> isLoadingUserStorage (snd (signIn ev em pw w)) = isLoadingUserStorage w
    | Some (u', t') \<Rightarrow>
        take 3 (events_of (signIn ev em pw) w)
          = [Await (ApiPostSessions em pw), SetIsLoadingUserStorage True,
             Await (StorageUserSave u')]
        \<and> filter touches_loading (events_of (signIn ev em pw) w)
          = [SetIsLoadingUserStorage True, SetIsLoadingUserStorage False]
        \<and> isLoadingUserStorage (snd (signIn ev em pw w)) = False)"
proof (cases "post_sessions ev")
  case (Inl e)
  then show ?thesis
    by (simp add: signIn_def action_defs Let_def events_of_def complete_answer_def)
next
  case (Inr d)
  then show ?thesis
    by (cases "data_user d"; cases "data_token d"; cases "user_save ev"; cases "token_save ev")
       (simp_all add: signIn_def action_defs Let_def events_of_def touches_loading_def
          complete_answer_def)
qed

lemma signIn_awaits_first:
  "take 1 (events_of (signIn ev em pw) w) = [Await (ApiPostSessions em pw)]
   \<and> \<not> sets_loading_first (events_of (signIn ev em pw) w)
   \<and> isLoadingUserStorage (snd (signIn ev em pw w))
       = (if filter touches_loading (events_of (signIn ev em pw) w) = []
          then isLoadingUserStorage w else False)"
proof (cases "post_sessions ev")
  case (Inl e)
  then show ?thesis
    by (simp add: signIn_def action_defs Let_def events_of_def touches_loading_def
          sets_loading_first_def before_first_await_def)
next
  case (Inr d)
  then show ?thesis
    by (cases "data_user d"; cases "data_token d"; cases "user_save ev"; cases "token_save ev")
       (simp_all add: signIn_def action_defs Let_def events_of_def touches_loading_def
          sets_loading_first_def before_first_await_def)
qed

lemma signOut_flag:
  "sets_loading_first (events_of (signOut ev) w)
   \<and> last (events_of (signOut ev) w) = SetIsLoadingUserStorage False
   \<and> isLoadingUserStorage (snd (signOut ev w)) = False"
  by (cases "user_remove ev"; cases "token_remove ev")
     (simp_all add: signOut_def action_defs Let_def events_of_def sets_loading_first_def
        before_first_await_def)

lemma loadUserData_flag:
  "sets_loading_first (events_of (loadUserData ev) w)
   \<and> last (events_of (loadUserData ev) w) = SetIsLoadingUserStorage False
   \<and> isLoadingUserStorage (snd (loadUserData ev w)) = False"
  by (cases "user_get ev"; cases "token_get ev"; cases "stored_user w"; cases "stored_token w")
     (simp_all add: loadUserData_def action_defs Let_def events_of_def sets_loading_first_def
        before_first_await_def)

lemma storageUserAndTokenSave_flag:
  "sets_loading_first (events_of (storageUserAndTokenSave ev u t) w)
   \<and> last (events_of (storageUserAndTokenSave ev u t) w) = SetIsLoadingUserStorage False
   \<and> isLoadingUserStorage (snd (storageUserAndTokenSave ev u t w)) = False"
  by (cases "user_save ev"; cases "token_save ev")
     (simp_all add: action_defs Let_def events_of_def sets_loading_first_def
        before_first_await_def)

lemma updateUserProfile_flag:
  "filter touches_loading (events_of (updateUserProfile ev u) w) = []
   \<and> \<not> sets_loading_first (events_of (updateUserProfile ev u) w)
   \<and> isLoadingUserStorage (snd (updateUserProfile ev u w)) = isLoadingUserStorage w"
  by (cases "user_save ev")
     (simp_all add: updateUserProfile_def action_defs Let_def events_of_def touches_loading_def
        sets_loading_first_def before_first_await_def)

text \<open>
  C6 as amended. \<open>signOut\<close> and \<open>loadUserData\<close> set the loading flag to true before their
  first awaited call and end, on every exit path, with the flag cleared to false as their
  last effect; so does \<open>storageUserAndTokenSave\<close>. \<open>signIn\<close> awaits the network request first,
  in every run, with the flag untouched. When the answer carries a user and a token,
  \<open>signIn\<close> then sets the flag to true before the first store write and clears it to false
  once, whether the writes succeed or throw, and the flag is false at the end; when the
  request throws or the answer lacks a field, the request is all \<open>signIn\<close> does and the flag
  is what it was. \<open>updateUserProfile\<close> never writes the flag, in any run.
\<close>

theorem loading_flag_discipline:
  "sets_loading_first (events_of (signOut ev) w)
   \<and> last (events_of (signOut ev) w) = SetIsLoadingUserStorage False
   \<and> isLoadingUserStorage (snd (signOut ev w)) = False
   \<and> sets_loading_first (events_of (loadUserData ev) w)
   \<and> last (events_of (loadUserData ev) w) = SetIsLoadingUserStorage False
   \<and> isLoadingUserStorage (snd (loadUserData ev w)) = False
   \<and> sets_loading_first (events_of (storageUserAndTokenSave ev u t) w)
   \<and> last (events_of (storageUserAndTokenSave ev u t) w) = SetIsLoadingUserStorage False
   \<and> isLoadingUserStorage (snd (storageUserAndTokenSave ev u t w)) = False
   \<and> take 1 (events_of (signIn ev em pw) w) = [Await (ApiPostSessions em pw)]
   \<and> \<not> sets_loading_first (events_of (signIn ev em pw) w)
   \<and> isLoadingUserStorage (snd (signIn ev em pw w))
       = (if filter touches_loading (events_of (signIn ev em pw) w) = []
          then isLoadingUserStorage w else False)
   \<and> (case complete_answer ev of
         None \<Rightarrow>
           events_of (signIn ev em pw) w = [Await (ApiPostSessions em pw)]
           \<and> isLoadingUserStorage (snd (signIn ev em pw w)) = isLoadingUserStorage w
       | Some (u', t') \<Rightarrow>
           take 3 (events_of (signIn ev em pw) w)
             = [Await (ApiPostSessions em pw), SetIsLoadingUserStorage True,
                Await (StorageUserSave u')]
           \<and> filter touches_loading (events_of (signIn ev em pw) w)
             = [SetIsLoadingUserStorage True, SetIsLoadingUserStorage False]
           \<and> isLoadingUserStorage (snd (signIn ev em pw w)) = False)
   \<and> filter touches_loading (events_of (updateUserProfile ev u) w) = []
   \<and> \<not> sets_loading_first (events_of (updateUserProfile ev u) w)
   \<and> isLoadingUserStorage (snd (updateUserProfile ev u w)) = isLoadingUserStorage w"
  using signOut_flag [of ev w] loadUserData_flag [of ev w]
    storageUserAndTokenSave_flag [of ev u t w] signIn_awaits_first [of ev em pw w]
    signIn_flag_by_answer [of ev em pw w] updateUserProfile_flag [of ev u w]
  by simp

theorem loading_flag_discipline_witness:
  "sets_loading_first (events_of (signOut user_remove_throws) signed_in)
   \<and> isLoadingUserStorage (snd (signOut user_remove_throws signed_in)) = False
   \<and> take 3 (events_of (signIn token_save_throws ''ana@x.com'' ''123456'') (fresh None None))
       = [Await (ApiPostSessions ''ana@x.com'' ''123456''), SetIsLoadingUserStorage True,
          Await (StorageUserSave ana)]
   \<and> filter touches_loading
        (events_of (signIn token_save_throws ''ana@x.com'' ''123456'') (fresh None None))
       = [SetIsLoadingUserStorage True, SetIsLoadingUserStorage False]
   \<and> isLoadingUserStorage (snd (signIn token_save_throws ''ana@x.com'' ''123456'' (fresh None None)))
       = False
   \<and> events_of (signIn (all_ok no_answer) ''ana@x.com'' ''123456'') (fresh None None)
       = [Await (ApiPostSessions ''ana@x.com'' ''123456'')]
   \<and> isLoadingUserStorage (snd (signIn (all_ok no_answer) ''ana@x.com'' ''123456'' (fresh None None)))
       = True
   \<and> isLoadingUserStorage (snd (updateUserProfile (all_ok no_answer) ana_renamed (fresh None None)))
       = True"
proof -
  have c1: "complete_answer token_save_throws = Some (ana, ''tok'')"
    by (simp add: complete_answer_def token_save_throws_def all_ok_def full_answer_def)
  have c2: "complete_answer (all_ok no_answer) = None"
    by (simp add: complete_answer_def all_ok_def no_answer_def)
  note a = loading_flag_discipline
    [of user_remove_throws signed_in ana "''tok''" "''ana@x.com''" "''123456''"]
  note b = loading_flag_discipline
    [of token_save_throws "fresh None None" ana "''tok''" "''ana@x.com''" "''123456''"]
  note c = loading_flag_discipline
    [of "all_ok no_answer" "fresh None None" ana_renamed "''tok''" "''ana@x.com''" "''123456''"]
  from a have A: "sets_loading_first (events_of (signOut user_remove_throws) signed_in)
      \<and> isLoadingUserStorage (snd (signOut user_remove_throws signed_in)) = False"
    by blast
  from b have "case complete_answer token_save_throws of
         None \<Rightarrow>
           events_of (signIn token_save_throws ''ana@x.com'' ''123456'') (fresh None None)
             = [Await (ApiPostSessions ''ana@x.com'' ''123456'')]
           \<and> isLoadingUserStorage (snd (signIn token_save_throws ''ana@x.com'' ''123456''
                (fresh None None))) = isLoadingUserStorage (fresh None None)
       | Some (u', t') \<Rightarrow>
           take 3 (events_of (signIn token_save_throws ''ana@x.com'' ''123456'') (fresh None None))
             = [Await (ApiPostSessions ''ana@x.com'' ''123456''), SetIsLoadingUserStorage True,
                Await (StorageUserSave u')]
           \<and> filter touches_loading
                (events_of (signIn token_save_throws ''ana@x.com'' ''123456'') (fresh None None))
             = [SetIsLoadingUserStorage True, SetIsLoadingUserStorage False]
           \<and> isLoadingUserStorage (snd (signIn token_save_throws ''ana@x.com'' ''123456''
                (fresh None None))) = False"
    by blast
  with c1 have B: "take 3 (events_of (signIn token_save_throws ''ana@x.com'' ''123456'') (fresh None None))
        = [Await (ApiPostSessions ''ana@x.com'' ''123456''), SetIsLoadingUserStorage True,
           Await (StorageUserSave ana)]
      \<and> filter touches_loading
           (events_of (signIn token_save_throws ''ana@x.com'' ''123456'') (fresh None None))
        = [SetIsLoadingUserStorage True, SetIsLoadingUserStorage False]
      \<and> isLoadingUserStorage (snd (signIn token_save_throws ''ana@x.com'' ''123456''
           (fresh None None))) = False"
    by simp
  from c have "case complete_answer (all_ok no_answer) of
         None \<Rightarrow>
           events_of (signIn (all_ok no_answer) ''ana@x.com'' ''123456'') (fresh None None)
             = [Await (ApiPostSessions ''ana@x.com'' ''123456'')]
           \<and> isLoadingUserStorage (snd (signIn (all_ok no_answer) ''ana@x.com'' ''123456''
                (fresh None None))) = isLoadingUserStorage (fresh None None)
       | Some (u', t') \<Rightarrow>
           take 3 (events_of (signIn (all_ok no_answer) ''ana@x.com'' ''123456'') (fresh None None))
             = [Await (ApiPostSessions ''ana@x.com'' ''123456''), SetIsLoadingUserStorage True,
                Await (StorageUserSave u')]
           \<and> filter touches_loading
                (events_of (signIn (all_ok no_answer) ''ana@x.com'' ''123456'') (fresh None None))
             = [SetIsLoadingUserStorage True, SetIsLoadingUserStorage False]
           \<and> isLoadingUserStorage (snd (signIn (all_ok no_answer) ''ana@x.com'' ''123456''
                (fresh None None))) = False"
    by blast
  with c2 have C: "events_of (signIn (all_ok no_answer) ''ana@x.com'' ''123456'') (fresh None None)
        = [Await (ApiPostSessions ''ana@x.com'' ''123456'')]
      \<and> isLoadingUserStorage (snd (signIn (all_ok no_answer) ''ana@x.com'' ''123456''
           (fresh None None))) = True"
    by (simp add: fresh_def)
  from c have "isLoadingUserStorage (snd (updateUserProfile (all_ok no_answer) ana_renamed
        (fresh None None))) = isLoadingUserStorage (fresh None None)"
    by blast
  then have D: "isLoadingUserStorage (snd (updateUserProfile (all_ok no_answer) ana_renamed
        (fresh None None))) = True"
    by (simp add: fresh_def)
  from A B C D show ?thesis by simp
qed

text \<open>
  \<open>signIn\<close> reaches its first suspend point with the flag untouched, and \<open>updateUserProfile\<close>
  suspends on the store without ever setting it.
\<close>

theorem loading_flag_not_set_first_counterexample:
  "events_of (signIn (all_ok full_answer) ''ana@x.com'' ''123456'') (fresh None None)
     = [Await (ApiPostSessions ''ana@x.com'' ''123456''), SetIsLoadingUserStorage True,
        Await (StorageUserSave ana), Await (StorageAuthTokenSave ''tok''),
        SetIsLoadingUserStorage False, SetAuthorization ''Bearer tok'', SetUser ana]
   \<and> \<not> sets_loading_first
        (events_of (signIn (all_ok full_answer) ''ana@x.com'' ''123456'') (fresh None None))
   \<and> events_of (updateUserProfile (all_ok no_answer) ana_renamed) signed_in
     = [SetUser ana_renamed, Await (StorageUserSave ana_renamed)]
   \<and> \<not> sets_loading_first (events_of (updateUserProfile (all_ok no_answer) ana_renamed) signed_in)"
  by (simp add: all_ok_def full_answer_def fresh_def signed_in_def signIn_def
        updateUserProfile_def action_defs Let_def events_of_def sets_loading_first_def
        before_first_await_def)

section \<open>The pairing of user and token\<close>

datatype operation =
    SignIn env string string
  | SignOut env
  | UpdateUserProfile env UserDTO
  | LoadUserData env

fun perform :: "operation \<Rightarrow> world \<Rightarrow> world" where
  "perform (SignIn ev em pw) w = snd (signIn ev em pw w)"
| "perform (SignOut ev) w = snd (signOut ev w)"
| "perform (UpdateUserProfile ev u) w = snd (updateUserProfile ev u w)"
| "perform (LoadUserData ev) w = snd (loadUserData ev w)"

definition run :: "operation list \<Rightarrow> world \<Rightarrow> world" where
  "run ops w = fold perform ops w"

text \<open>
  A user record in memory comes with a token: a token is in the store and the header is
  \<^verbatim>\<open>Bearer\<close> followed by that token.
\<close>

definition token_follows_user :: "world \<Rightarrow> bool" where
  "token_follows_user w =
     (user w = empty_user
      \<or> (case stored_token w of
           None \<Rightarrow> False
         | Some t \<Rightarrow> Authorization w = Some (''Bearer '' @ t)))"

text \<open>
  A token matches a user record when the server issued it for the user of that identifier.
  For whom a token was issued is known to the server only, so it is a parameter: \<open>owner t\<close>
  is the identifier of the user of token \<open>t\<close>.
\<close>

definition matching :: "(string \<Rightarrow> string option) \<Rightarrow> UserDTO \<Rightarrow> string \<Rightarrow> bool" where
  "matching owner u t = (owner t = user_id u)"

text \<open>
  A user record in memory comes with its matching token, in the store and in the header.
\<close>

definition matching_token_follows_user :: "(string \<Rightarrow> string option) \<Rightarrow> world \<Rightarrow> bool" where
  "matching_token_follows_user owner w =
     (user w = empty_user
      \<or> (case stored_token w of
           None \<Rightarrow> False
         | Some t \<Rightarrow> Authorization w = Some (''Bearer '' @ t) \<and> matching owner (user w) t))"

text \<open>The two persisted keys, when both are present, hold a user and its matching token.\<close>

definition store_paired :: "(string \<Rightarrow> string option) \<Rightarrow> world \<Rightarrow> bool" where
  "store_paired owner w =
     (case stored_user w of
        None \<Rightarrow> True
      | Some u \<Rightarrow> (case stored_token w of None \<Rightarrow> True | Some t \<Rightarrow> matching owner u t))"

text \<open>The profile screen calls \<open>updateUserProfile\<close> on the user of a running session.\<close>

fun admissible :: "operation \<Rightarrow> world \<Rightarrow> bool" where
  "admissible (UpdateUserProfile ev u) w = (user w \<noteq> empty_user)"
| "admissible (SignIn ev em pw) w = True"
| "admissible (SignOut ev) w = True"
| "admissible (LoadUserData ev) w = True"

fun admissible_run :: "operation list \<Rightarrow> world \<Rightarrow> bool" where
  "admissible_run [] w = True"
| "admissible_run (x # xs) w = (admissible x w \<and> admissible_run xs (perform x w))"

text \<open>
  A step in which the server answers a sign-in with a user and the token issued for that
  user, the write of that token does not throw once the user record has been written, and
  the profile screen passes on the record of the user in memory with some fields changed
  but its identifier kept. Requests, store reads, removals and the writes of the user
  record may throw.
\<close>

fun faithful :: "(string \<Rightarrow> string option) \<Rightarrow> operation \<Rightarrow> world \<Rightarrow> bool" where
  "faithful owner (SignIn ev em pw) w =
     (case complete_answer ev of
        None \<Rightarrow> True
      | Some (u, t) \<Rightarrow>
          matching owner u t
          \<and> (case user_save ev of Some _ \<Rightarrow> True | None \<Rightarrow> token_save ev = None))"
| "faithful owner (SignOut ev) w = True"
| "faithful owner (UpdateUserProfile ev u) w = (user_id u = user_id (user w))"
| "faithful owner (LoadUserData ev) w = True"

fun faithful_run :: "(string \<Rightarrow> string option) \<Rightarrow> operation list \<Rightarrow> world \<Rightarrow> bool" where
  "faithful_run owner [] w = True"
| "faithful_run owner (x # xs) w = (faithful owner x w \<and> faithful_run owner xs (perform x w))"

lemma signIn_keeps_pairing:
  assumes "token_follows_user w"
  shows "token_follows_user (snd (signIn ev em pw w))"
proof (cases "post_sessions ev")
  case (Inl e)
  with assms show ?thesis
    by (auto simp: signIn_def action_defs Let_def token_follows_user_def split: option.splits)
next
  case (Inr d)
  with assms show ?thesis
    by (cases "data_user d"; cases "data_token d"; cases "user_save ev"; cases "token_save ev")
       (auto simp: signIn_def action_defs Let_def token_follows_user_def split: option.splits)
qed

lemma signOut_keeps_pairing: "token_follows_user (snd (signOut ev w))"
  by (cases "user_remove ev"; cases "token_remove ev")
     (simp_all add: signOut_def action_defs Let_def token_follows_user_def)

lemma loadUserData_keeps_pairing:
  assumes "token_follows_user w"
  shows "token_follows_user (snd (loadUserData ev w))"
  using assms
  by (cases "user_get ev"; cases "token_get ev"; cases "stored_user w"; cases "stored_token w")
     (auto simp: loadUserData_def action_defs Let_def token_follows_user_def)

lemma updateUserProfile_keeps_pairing:
  assumes "token_follows_user w" and "user w \<noteq> empty_user"
  shows "token_follows_user (snd (updateUserProfile ev u w))"
  using assms
  by (cases "user_save ev")
     (auto simp: updateUserProfile_def action_defs Let_def token_follows_user_def
        split: option.splits)

lemma perform_keeps_pairing:
  assumes "token_follows_user w" and "admissible x w"
  shows "token_follows_user (perform x w)"
  using assms
  by (cases x)
     (simp_all add: signIn_keeps_pairing signOut_keeps_pairing loadUserData_keeps_pairing
        updateUserProfile_keeps_pairing)

lemma run_keeps_pairing:
  "token_follows_user w \<Longrightarrow> admissible_run xs w \<Longrightarrow> token_follows_user (run xs w)"
proof (induction xs arbitrary: w)
  case Nil
  then show ?case by (simp add: run_def)
next
  case (Cons x xs)
  from Cons.prems have "token_follows_user (perform x w)" and "admissible_run xs (perform x w)"
    by (simp_all add: perform_keeps_pairing)
  then have "token_follows_user (run xs (perform x w))"
    by (rule Cons.IH)
  then show ?case by (simp add: run_def)
qed

text \<open>The same for the matching token, step by step, together with the pairing of the store.\<close>

definition matched :: "(string \<Rightarrow> string option) \<Rightarrow> world \<Rightarrow> bool" where
  "matched owner w = (matching_token_follows_user owner w \<and> store_paired owner w)"

lemmas matched_defs =
  matched_def matching_token_follows_user_def store_paired_def matching_def

lemma signIn_keeps_matched:
  assumes "matched owner w" and "faithful owner (SignIn ev em pw) w"
  shows "matched owner (snd (signIn ev em pw w))"
proof (cases "post_sessions ev")
  case (Inl e)
  with assms show ?thesis
    by (auto simp: signIn_def action_defs Let_def matched_defs split: option.splits)
next
  case (Inr d)
  with assms show ?thesis
    by (cases "data_user d"; cases "data_token d"; cases "user_save ev"; cases "token_save ev")
       (auto simp: signIn_def action_defs Let_def matched_defs complete_answer_def
          split: option.splits if_splits)
qed

lemma signOut_keeps_matched:
  assumes "matched owner w"
  shows "matched owner (snd (signOut ev w))"
  using assms
  by (cases "user_remove ev"; cases "token_remove ev")
     (auto simp: signOut_def action_defs Let_def matched_defs split: option.splits)

lemma loadUserData_keeps_matched:
  assumes "matched owner w"
  shows "matched owner (snd (loadUserData ev w))"
  using assms
  by (cases "user_get ev"; cases "token_get ev"; cases "stored_user w"; cases "stored_token w")
     (auto simp: loadUserData_def action_defs Let_def matched_defs)

lemma updateUserProfile_keeps_matched:
  assumes "matched owner w" and "user w \<noteq> empty_user"
    and "faithful owner (UpdateUserProfile ev u) w"
  shows "matched owner (snd (updateUserProfile ev u w))"
  using assms
  by (cases "user_save ev")
     (auto simp: updateUserProfile_def action_defs Let_def matched_defs split: option.splits)

lemma perform_keeps_matched:
  assumes "matched owner w" and "admissible x w" and "faithful owner x w"
  shows "matched owner (perform x w)"
proof (cases x)
  case (SignIn ev em pw)
  with assms show ?thesis by (simp add: signIn_keeps_matched)
next
  case (SignOut ev)
  with assms show ?thesis by (simp add: signOut_keeps_matched)
next
  case (UpdateUserProfile ev u)
  with assms show ?thesis by (simp add: updateUserProfile_keeps_matched)
next
  case (LoadUserData ev)
  with assms show ?thesis by (simp add: loadUserData_keeps_matched)
qed

lemma run_keeps_matched:
  "matched owner w \<Longrightarrow> admissible_run xs w \<Longrightarrow> faithful_run owner xs w
     \<Longrightarrow> matched owner (run xs w)"
proof (induction xs arbitrary: w)
  case Nil
  then show ?case by (simp add: run_def)
next
  case (Cons x xs)
  from Cons.prems have "matched owner (perform x w)"
    and "admissible_run xs (perform x w)" and "faithful_run owner xs (perform x w)"
    by (simp_all add: perform_keeps_matched)
  then have "matched owner (run xs (perform x w))"
    by (rule Cons.IH)
  then show ?case by (simp add: run_def)
qed

text \<open>
  C1 as amended. Take any state reached from a fresh context by \<open>signIn\<close>, \<open>signOut\<close> and
  \<open>loadUserData\<close>, and by \<open>updateUserProfile\<close> called while a user is present in memory.
  Whenever a user record is present in memory, a token is present in the store and the
  header is \<^verbatim>\<open>Bearer\<close> followed by that token. If moreover the store was paired at start,
  every complete sign-in answer carried the token issued for its user, no write of a token
  has thrown after the write of its user record, and \<open>updateUserProfile\<close> kept the identifier
  of the user in memory, then that token is the matching one: the token issued for the user
  in memory. The converse is not promised: \<open>signOut\<close> leaves the header in place.
\<close>

theorem user_in_memory_has_token:
  assumes "admissible_run xs (fresh su st)"
  shows "token_follows_user (run xs (fresh su st))
    \<and> (store_paired owner (fresh su st) \<and> faithful_run owner xs (fresh su st)
         \<longrightarrow> matching_token_follows_user owner (run xs (fresh su st)))"
proof -
  have "token_follows_user (fresh su st)"
    by (simp add: token_follows_user_def fresh_def)
  then have first: "token_follows_user (run xs (fresh su st))"
    using assms by (rule run_keeps_pairing)
  have second: "matching_token_follows_user owner (run xs (fresh su st))"
    if paired: "store_paired owner (fresh su st)" and ok: "faithful_run owner xs (fresh su st)"
  proof -
    from paired have "matched owner (fresh su st)"
      by (simp add: matched_def matching_token_follows_user_def fresh_def)
    then have "matched owner (run xs (fresh su st))"
      using assms ok by (rule run_keeps_matched)
    then show ?thesis by (simp add: matched_def)
  qed
  from first second show ?thesis by blast
qed

text \<open>Who owns the tokens of the concrete runs, and a second user.\<close>

definition token_owner :: "string \<Rightarrow> string option" where
  "token_owner t = (if t = ''tok'' then Some ''1'' else if t = ''tokB'' then Some ''2'' else None)"

definition bob :: UserDTO where
  "bob = \<lparr>user_id = Some ''2'', name = Some ''Bob'', email = Some ''bob@x.com'', avatar = None\<rparr>"

definition bob_answer :: session_data where
  "bob_answer = \<lparr>data_user = Some bob, data_token = Some ''tokB''\<rparr>"

definition session_script :: "operation list" where
  "session_script =
     [LoadUserData (all_ok no_answer),
      SignIn (all_ok full_answer) ''ana@x.com'' ''123456'',
      UpdateUserProfile (all_ok no_answer) ana_renamed]"

lemma run_session_script:
  "run session_script (fresh None None) =
     \<lparr>user = ana_renamed, isLoadingUserStorage = False, Authorization = Some ''Bearer tok'',
      stored_user = Some ana_renamed, stored_token = Some ''tok'',
      trace = [SetIsLoadingUserStorage True, Await StorageUserGet, Await StorageAuthTokenGet,
        SetIsLoadingUserStorage False,
        Await (ApiPostSessions ''ana@x.com'' ''123456''), SetIsLoadingUserStorage True,
        Await (StorageUserSave ana), Await (StorageAuthTokenSave ''tok''),
        SetIsLoadingUserStorage False, SetAuthorization ''Bearer tok'', SetUser ana,
        SetUser ana_renamed, Await (StorageUserSave ana_renamed)]\<rparr>"
  by (simp add: session_script_def run_def all_ok_def no_answer_def full_answer_def fresh_def
        signIn_def updateUserProfile_def loadUserData_def action_defs Let_def)

lemma ana_is_a_user: "ana \<noteq> empty_user" "ana_renamed \<noteq> empty_user" "bob \<noteq> empty_user"
  by (simp_all add: ana_def ana_renamed_def bob_def empty_user_def)

lemma concrete_user_ids: "user_id ana = Some ''1''" "user_id bob = Some ''2''"
  by (simp_all add: ana_def bob_def)

theorem user_in_memory_has_token_witness:
  "admissible_run session_script (fresh None None)
   \<and> store_paired token_owner (fresh None None)
   \<and> faithful_run token_owner session_script (fresh None None)
   \<and> user (run session_script (fresh None None)) = ana_renamed
   \<and> ana_renamed \<noteq> empty_user
   \<and> stored_token (run session_script (fresh None None)) = Some ''tok''
   \<and> Authorization (run session_script (fresh None None)) = Some ''Bearer tok''
   \<and> token_owner ''tok'' = user_id ana_renamed
   \<and> token_follows_user (run session_script (fresh None None))
   \<and> matching_token_follows_user token_owner (run session_script (fresh None None))"
proof -
  have adm: "admissible_run session_script (fresh None None)"
    by (simp add: session_script_def all_ok_def no_answer_def full_answer_def fresh_def
          signIn_def loadUserData_def action_defs Let_def ana_is_a_user)
  have paired: "store_paired token_owner (fresh None None)"
    by (simp add: store_paired_def fresh_def)
  have ok: "faithful_run token_owner session_script (fresh None None)"
    by (simp add: session_script_def all_ok_def no_answer_def full_answer_def fresh_def
          signIn_def loadUserData_def action_defs Let_def complete_answer_def matching_def
          token_owner_def ana_def ana_renamed_def)
  have own: "token_owner ''tok'' = user_id ana_renamed"
    by (simp add: token_owner_def ana_renamed_def ana_def)
  show ?thesis
    using adm paired ok own user_in_memory_has_token [OF adm, of token_owner]
    by (simp add: run_session_script ana_is_a_user)
qed

text \<open>
  Four reachable states that split the pair. After \<open>updateUserProfile\<close> in a context without
  a session a user is in memory with no token anywhere. After \<open>signIn\<close> and \<open>signOut\<close> the
  header still carries the token of the user that is gone. When Bob signs in after Ana and
  the write of his token throws, his record is persisted beside her token, and
  \<open>loadUserData\<close> restores Bob with the token issued for Ana. Last, \<open>updateUserProfile\<close>
  called in Ana's session with Bob's record puts Bob in memory beside Ana's token.
\<close>

definition mismatch_script :: "operation list" where
  "mismatch_script =
     [SignIn (all_ok full_answer) ''ana@x.com'' ''123456'',
      SignIn ((all_ok bob_answer)\<lparr>token_save := Some (Failure ''storage'')\<rparr>) ''bob@x.com'' ''654321'',
      LoadUserData (all_ok no_answer)]"

definition swap_script :: "operation list" where
  "swap_script =
     [SignIn (all_ok full_answer) ''ana@x.com'' ''123456'',
      UpdateUserProfile (all_ok no_answer) bob]"

theorem user_token_pairing_counterexample:
  "user (run [UpdateUserProfile (all_ok no_answer) ana] (fresh None None)) = ana
   \<and> ana \<noteq> empty_user
   \<and> stored_token (run [UpdateUserProfile (all_ok no_answer) ana] (fresh None None)) = None
   \<and> Authorization (run [UpdateUserProfile (all_ok no_answer) ana] (fresh None None)) = None
   \<and> \<not> token_follows_user (run [UpdateUserProfile (all_ok no_answer) ana] (fresh None None))
   \<and> user (run [SignIn (all_ok full_answer) ''ana@x.com'' ''123456'', SignOut (all_ok no_answer)]
        (fresh None None)) = empty_user
   \<and> stored_token (run [SignIn (all_ok full_answer) ''ana@x.com'' ''123456'',
        SignOut (all_ok no_answer)] (fresh None None)) = None
   \<and> Authorization (run [SignIn (all_ok full_answer) ''ana@x.com'' ''123456'',
        SignOut (all_ok no_answer)] (fresh None None)) = Some ''Bearer tok''
   \<and> admissible_run mismatch_script (fresh None None)
   \<and> user (run mismatch_script (fresh None None)) = bob
   \<and> stored_token (run mismatch_script (fresh None None)) = Some ''tok''
   \<and> Authorization (run mismatch_script (fresh None None)) = Some ''Bearer tok''
   \<and> token_owner ''tok'' = user_id ana
   \<and> token_owner ''tok'' \<noteq> user_id bob
   \<and> \<not> matching_token_follows_user token_owner (run mismatch_script (fresh None None))
   \<and> admissible_run swap_script (fresh None None)
   \<and> user (run swap_script (fresh None None)) = bob
   \<and> stored_token (run swap_script (fresh None None)) = Some ''tok''
   \<and> Authorization (run swap_script (fresh None None)) = Some ''Bearer tok''
   \<and> \<not> matching_token_follows_user token_owner (run swap_script (fresh None None))"
  by (simp add: run_def mismatch_script_def swap_script_def all_ok_def no_answer_def full_answer_def bob_answer_def
        fresh_def signIn_def signOut_def updateUserProfile_def loadUserData_def action_defs
        Let_def token_follows_user_def matching_token_follows_user_def matching_def
        token_owner_def ana_is_a_user concrete_user_ids)

text \<open>
  The context never persists an empty token: \<open>signIn\<close> saves the token of an answer only
  when it is truthy. A store that holds no empty token at start never holds one later.
\<close>

lemma perform_token_not_empty:
  assumes "stored_token w \<noteq> Some []"
  shows "stored_token (perform x w) \<noteq> Some []"
proof (cases x)
  case (SignIn ev em pw)
  show ?thesis
  proof (cases "post_sessions ev")
    case (Inl e)
    with assms SignIn show ?thesis
      by (simp add: signIn_def action_defs Let_def)
  next
    case (Inr d)
    with assms SignIn show ?thesis
      by (cases "data_user d"; cases "data_token d"; cases "user_save ev"; cases "token_save ev")
         (simp_all add: signIn_def action_defs Let_def)
  qed
next
  case (SignOut ev)
  with assms show ?thesis
    by (cases "user_remove ev"; cases "token_remove ev")
       (simp_all add: signOut_def action_defs Let_def)
next
  case (UpdateUserProfile ev u)
  with assms show ?thesis
    by (cases "user_save ev") (simp_all add: updateUserProfile_def action_defs Let_def)
next
  case (LoadUserData ev)
  with assms show ?thesis
    by (cases "user_get ev"; cases "token_get ev"; cases "stored_user w"; cases "stored_token w")
       (simp_all add: loadUserData_def action_defs Let_def)
qed

lemma run_token_not_empty:
  "stored_token w \<noteq> Some [] \<Longrightarrow> stored_token (run xs w) \<noteq> Some []"
proof (induction xs arbitrary: w)
  case Nil
  then show ?case by (simp add: run_def)
next
  case (Cons x xs)
  from Cons.prems have "stored_token (perform x w) \<noteq> Some []"
    by (rule perform_token_not_empty)
  then have "stored_token (run xs (perform x w)) \<noteq> Some []"
    by (rule Cons.IH)
  then show ?case by (simp add: run_def)
qed

section \<open>Form validation\<close>

text \<open>
  A form field holds a string once the user has typed, and \<^verbatim>\<open>undefined\<close> or \<^verbatim>\<open>null\<close> before.
  The length of a string is the number of its characters as the list holds them.
\<close>

datatype jsval = Undefined | Null | Str string

text \<open>The messages of the schemas, by what they say.\<close>

datatype message =
    Informe_o_nome
  | Informe_o_email
  | Email_invalido
  | Informe_a_senha
  | Senha_pelo_menos_6
  | Confirme_a_senha
  | Confirmacao_nao_confere
  | Informe_a_confirmacao

text \<open>A validation failure: the path of the field and the message.\<close>

type_synonym issue = "string \<times> message"

text \<open>
  The rules of the validation library (yup) that the schemas chain, each as the list of
  failures it reports for one field. \<^verbatim>\<open>required\<close> refuses \<^verbatim>\<open>undefined\<close>, \<^verbatim>\<open>null\<close> and the
  empty string; \<^verbatim>\<open>min\<close>, \<^verbatim>\<open>email\<close> and \<^verbatim>\<open>oneOf\<close> pass an absent value; \<^verbatim>\<open>email\<close> passes the
  empty string. The pattern of \<^verbatim>\<open>email\<close> belongs to the library and is a parameter.
  A schema is judged by whether its list of failures is empty; the order of the list is
  not the order in which the library reports.
\<close>

definition required :: "message \<Rightarrow> string \<Rightarrow> jsval \<Rightarrow> issue list" where
  "required msg path v =
     (case v of Str s \<Rightarrow> if s = [] then [(path, msg)] else [] | _ \<Rightarrow> [(path, msg)])"

definition min_length :: "nat \<Rightarrow> message \<Rightarrow> string \<Rightarrow> jsval \<Rightarrow> issue list" where
  "min_length n msg path v =
     (case v of Str s \<Rightarrow> if length s < n then [(path, msg)] else [] | _ \<Rightarrow> [])"

definition email_rule :: "(string \<Rightarrow> bool) \<Rightarrow> message \<Rightarrow> string \<Rightarrow> jsval \<Rightarrow> issue list" where
  "email_rule rx msg path v =
     (case v of Str s \<Rightarrow> if s = [] \<or> rx s then [] else [(path, msg)] | _ \<Rightarrow> [])"

definition oneOf :: "jsval list \<Rightarrow> message \<Rightarrow> string \<Rightarrow> jsval \<Rightarrow> issue list" where
  "oneOf allowed msg path v =
     (case v of Str s \<Rightarrow> if Str s \<in> set allowed then [] else [(path, msg)] | _ \<Rightarrow> [])"

text \<open>A field left empty: nothing typed, or everything deleted again.\<close>

definition blank :: "jsval \<Rightarrow> bool" where
  "blank v = (case v of Str s \<Rightarrow> s = [] | _ \<Rightarrow> True)"

subsection \<open>Sign-up\<close>

record SignUpForm =
  su_name :: jsval
  su_email :: jsval
  su_password :: jsval
  su_passwordConfirm :: jsval

text \<open>\<^verbatim>\<open>yup.ref('password')\<close> stands for the value of the password field of the same form.\<close>

definition signUpSchema :: "(string \<Rightarrow> bool) \<Rightarrow> SignUpForm \<Rightarrow> issue list" where
  "signUpSchema rx f =
     required Informe_o_nome ''name'' (su_name f)
     @ required Informe_o_email ''email'' (su_email f)
     @ email_rule rx Email_invalido ''email'' (su_email f)
     @ required Informe_a_senha ''password'' (su_password f)
     @ min_length 6 Senha_pelo_menos_6 ''password'' (su_password f)
     @ required Confirme_a_senha ''passwordConfirm'' (su_passwordConfirm f)
     @ oneOf [su_password f, Str ''''] Confirmacao_nao_confere ''passwordConfirm''
         (su_passwordConfirm f)"

text \<open>\<^verbatim>\<open>api.post('/users', { name, email, password })\<close>.\<close>

definition api_post_users :: "error option \<Rightarrow> string \<Rightarrow> string \<Rightarrow> string \<Rightarrow> unit action" where
  "api_post_users outcome nm em pw w =
     (let w1 = emit (Await (ApiPostUsers nm em pw)) w in
      case outcome of Some e \<Rightarrow> (Inl e, w1) | None \<Rightarrow> (Inr (), w1))"

text \<open>
  \<open>handleSignUp\<close> catches whatever the registration or the sign-in throws and shows it;
  it never throws itself.
\<close>

definition handleSignUp :: "error option \<Rightarrow> env \<Rightarrow> string \<Rightarrow> string \<Rightarrow> string \<Rightarrow> unit action" where
  "handleSignUp reg ev nm em pw w =
     (case seq_action (effect (emit (SetIsLoading True)))
             (seq_action (api_post_users reg nm em pw) (signIn ev em pw)) w of
        (Inr _, w') \<Rightarrow> (Inr (), w')
      | (Inl e, w') \<Rightarrow>
          (Inr (), emit (ToastShow (case e of AppError m \<Rightarrow> ToastMessage m
                                     | Failure _ \<Rightarrow> ToastSignUpFailed))
                     (emit (SetIsLoading False) w')))"

text \<open>
  \<^verbatim>\<open>handleSubmit(handleSignUp)\<close> with the schema as resolver: the handler runs only on a form
  without failures, whose fields are then strings.
\<close>

definition submit_signUp :: "(string \<Rightarrow> bool) \<Rightarrow> error option \<Rightarrow> env \<Rightarrow> SignUpForm \<Rightarrow> unit action" where
  "submit_signUp rx reg ev f =
     (if signUpSchema rx f = [] then
        (case (su_name f, su_email f, su_password f) of
           (Str nm, Str em, Str pw) \<Rightarrow> handleSignUp reg ev nm em pw
         | _ \<Rightarrow> ret ())
      else ret ())"

definition ana_form :: SignUpForm where
  "ana_form = \<lparr>su_name = Str ''Ana'', su_email = Str ''ana@x.com'',
     su_password = Str ''123456'', su_passwordConfirm = Str ''123456''\<rparr>"

lemmas yup_defs = required_def min_length_def email_rule_def oneOf_def blank_def

lemma signUpSchema_blank_name: "blank (su_name f) \<Longrightarrow> signUpSchema rx f \<noteq> []"
  by (cases "su_name f") (simp_all add: signUpSchema_def yup_defs)

lemma signUpSchema_blank_email: "blank (su_email f) \<Longrightarrow> signUpSchema rx f \<noteq> []"
  by (cases "su_email f") (simp_all add: signUpSchema_def yup_defs)

lemma signUpSchema_blank_password: "blank (su_password f) \<Longrightarrow> signUpSchema rx f \<noteq> []"
  by (cases "su_password f") (simp_all add: signUpSchema_def yup_defs)

lemma signUpSchema_short_password:
  "su_password f = Str p \<Longrightarrow> length p < 6 \<Longrightarrow> signUpSchema rx f \<noteq> []"
  by (simp add: signUpSchema_def yup_defs)

lemma signUpSchema_mismatch:
  "su_passwordConfirm f \<noteq> su_password f \<Longrightarrow> signUpSchema rx f \<noteq> []"
  by (cases "su_passwordConfirm f") (simp_all add: signUpSchema_def yup_defs)

lemma submit_signUp_rejected: "signUpSchema rx f \<noteq> [] \<Longrightarrow> submit_signUp rx reg ev f w = (Inr (), w)"
  by (simp add: submit_signUp_def ret_def)

lemma signUpSchema_ana: "rx ''ana@x.com'' \<Longrightarrow> signUpSchema rx ana_form = []"
  by (simp add: signUpSchema_def yup_defs ana_form_def)

lemma submit_signUp_ana:
  assumes "rx ''ana@x.com''"
  shows "submit_signUp rx None ev ana_form w
     = (Inr (), snd (handleSignUp None ev ''Ana'' ''ana@x.com'' ''123456'' w))"
    and "take 3 (events_of (submit_signUp rx None ev ana_form) w)
     = [SetIsLoading True, Await (ApiPostUsers ''Ana'' ''ana@x.com'' ''123456''),
        Await (ApiPostSessions ''ana@x.com'' ''123456'')]"
    and "snd (handleSignUp None ev ''Ana'' ''ana@x.com'' ''123456'' w)
     = (case signIn ev ''ana@x.com'' ''123456''
               (emit (Await (ApiPostUsers ''Ana'' ''ana@x.com'' ''123456''))
                  (emit (SetIsLoading True) w)) of
          (Inr _, w') \<Rightarrow> w'
        | (Inl e, w') \<Rightarrow>
            emit (ToastShow (case e of AppError m \<Rightarrow> ToastMessage m
                             | Failure _ \<Rightarrow> ToastSignUpFailed))
              (emit (SetIsLoading False) w'))"
proof -
  have sub: "submit_signUp rx None ev ana_form = handleSignUp None ev ''Ana'' ''ana@x.com'' ''123456''"
    using signUpSchema_ana [of rx] assms by (simp add: submit_signUp_def ana_form_def)
  have never_throws: "fst (handleSignUp None ev ''Ana'' ''ana@x.com'' ''123456'' w) = Inr ()"
    by (simp add: handleSignUp_def split: prod.splits sum.splits)
  show "submit_signUp rx None ev ana_form w
     = (Inr (), snd (handleSignUp None ev ''Ana'' ''ana@x.com'' ''123456'' w))"
    using never_throws by (simp add: sub prod_eq_iff)
  show "snd (handleSignUp None ev ''Ana'' ''ana@x.com'' ''123456'' w)
     = (case signIn ev ''ana@x.com'' ''123456''
               (emit (Await (ApiPostUsers ''Ana'' ''ana@x.com'' ''123456''))
                  (emit (SetIsLoading True) w)) of
          (Inr _, w') \<Rightarrow> w'
        | (Inl e, w') \<Rightarrow>
            emit (ToastShow (case e of AppError m \<Rightarrow> ToastMessage m
                             | Failure _ \<Rightarrow> ToastSignUpFailed))
              (emit (SetIsLoading False) w'))"
    by (simp add: handleSignUp_def api_post_users_def seq_action_def bind_action_def effect_def
          Let_def split: prod.splits sum.splits)
  show "take 3 (events_of (submit_signUp rx None ev ana_form) w)
     = [SetIsLoading True, Await (ApiPostUsers ''Ana'' ''ana@x.com'' ''123456''),
        Await (ApiPostSessions ''ana@x.com'' ''123456'')]"
  proof (cases "post_sessions ev")
    case (Inl e)
    then show ?thesis
      by (cases e)
         (simp_all add: sub handleSignUp_def api_post_users_def signIn_def action_defs Let_def
            events_of_def)
  next
    case (Inr d)
    then show ?thesis
      by (cases "data_user d"; cases "data_token d"; cases "user_save ev"; cases "token_save ev")
         (auto simp: sub handleSignUp_def api_post_users_def signIn_def action_defs Let_def
            events_of_def split: error.splits)
  qed
qed

text \<open>
  C7. The sign-up schema rejects a form whose name, e-mail or password is empty, whose
  password has fewer than 6 characters, or whose confirmation differs from the password, and
  a rejected form reaches no handler. The form Ana, ana@x.com, 123456, 123456 is accepted
  (its e-mail passing the library's pattern); when the registration request succeeds the
  screen goes on to \<open>signIn\<close> with ana@x.com and 123456, whose first step is the session
  request with these credentials.
\<close>

theorem signUp_validation_and_chaining:
  "(blank (su_name f) \<or> blank (su_email f) \<or> blank (su_password f)
      \<longrightarrow> signUpSchema rx f \<noteq> [])
   \<and> ((\<exists>p. su_password f = Str p \<and> length p < 6) \<longrightarrow> signUpSchema rx f \<noteq> [])
   \<and> (su_passwordConfirm f \<noteq> su_password f \<longrightarrow> signUpSchema rx f \<noteq> [])
   \<and> (signUpSchema rx f \<noteq> [] \<longrightarrow> submit_signUp rx reg ev f w = (Inr (), w))
   \<and> (rx ''ana@x.com'' \<longrightarrow>
        signUpSchema rx ana_form = []
      \<and> submit_signUp rx None ev ana_form w
          = (Inr (), snd (handleSignUp None ev ''Ana'' ''ana@x.com'' ''123456'' w))
      \<and> snd (handleSignUp None ev ''Ana'' ''ana@x.com'' ''123456'' w)
          = (case signIn ev ''ana@x.com'' ''123456''
                    (emit (Await (ApiPostUsers ''Ana'' ''ana@x.com'' ''123456''))
                       (emit (SetIsLoading True) w)) of
               (Inr _, w') \<Rightarrow> w'
             | (Inl e, w') \<Rightarrow>
                 emit (ToastShow (case e of AppError m \<Rightarrow> ToastMessage m
                                  | Failure _ \<Rightarrow> ToastSignUpFailed))
                   (emit (SetIsLoading False) w'))
      \<and> take 3 (events_of (submit_signUp rx None ev ana_form) w)
          = [SetIsLoading True, Await (ApiPostUsers ''Ana'' ''ana@x.com'' ''123456''),
             Await (ApiPostSessions ''ana@x.com'' ''123456'')])"
  using signUpSchema_blank_name [of f rx] signUpSchema_blank_email [of f rx]
    signUpSchema_blank_password [of f rx] signUpSchema_short_password [of f _ rx]
    signUpSchema_mismatch [of f rx] submit_signUp_rejected [of rx f reg ev w]
    signUpSchema_ana [of rx] submit_signUp_ana [of rx ev w]
  by blast

text \<open>A pattern for the concrete runs: the address holds an at sign.\<close>

definition has_at :: "string \<Rightarrow> bool" where
  "has_at s = (CHR ''@'' \<in> set s)"

definition bad_form :: SignUpForm where
  "bad_form = \<lparr>su_name = Str '''', su_email = Str ''ana@x.com'',
     su_password = Str ''12345'', su_passwordConfirm = Str ''123456''\<rparr>"

theorem signUp_validation_and_chaining_witness:
  "blank (su_name bad_form)
   \<and> su_password bad_form = Str ''12345'' \<and> length ''12345'' < (6::nat)
   \<and> su_passwordConfirm bad_form \<noteq> su_password bad_form
   \<and> signUpSchema has_at bad_form \<noteq> []
   \<and> submit_signUp has_at None (all_ok full_answer) bad_form (fresh None None)
       = (Inr (), fresh None None)
   \<and> has_at ''ana@x.com''
   \<and> signUpSchema has_at ana_form = []
   \<and> take 3 (events_of (submit_signUp has_at None (all_ok full_answer) ana_form) (fresh None None))
       = [SetIsLoading True, Await (ApiPostUsers ''Ana'' ''ana@x.com'' ''123456''),
          Await (ApiPostSessions ''ana@x.com'' ''123456'')]"
  using signUp_validation_and_chaining
    [of bad_form has_at None "all_ok full_answer" "fresh None None"]
  by (simp add: bad_form_def blank_def has_at_def)

text \<open>When the registration request throws, no session request is made.\<close>

lemma handleSignUp_registration_fails:
  "events_of (handleSignUp (Some e) ev nm em pw) w
     = [SetIsLoading True, Await (ApiPostUsers nm em pw), SetIsLoading False,
        ToastShow (case e of AppError m \<Rightarrow> ToastMessage m | Failure _ \<Rightarrow> ToastSignUpFailed)]"
  by (simp add: handleSignUp_def api_post_users_def action_defs Let_def events_of_def)

subsection \<open>Profile\<close>

record ProfileForm =
  pf_name :: jsval
  pf_email :: jsval
  pf_old_password :: jsval
  pf_password :: jsval
  pf_confirm_password :: jsval

text \<open>\<^verbatim>\<open>v?.length\<close> as a condition: a string that is not empty.\<close>

definition has_length :: "jsval \<Rightarrow> bool" where
  "has_length v = (case v of Str s \<Rightarrow> s \<noteq> [] | _ \<Rightarrow> False)"

text \<open>
  The profile screen wired to the session context: password and confirmation are checked by
  two test functions that read each other's field from the parent object. The old password
  is a nullable string and never fails.
\<close>

definition password_test :: "ProfileForm \<Rightarrow> issue list" where
  "password_test f =
     (let val = pf_password f; confirmPassword = pf_confirm_password f in
      if has_length confirmPassword \<and> \<not> has_length val
        then [(''password'', Informe_a_senha)]
      else if has_length val \<and> (case val of Str s \<Rightarrow> length s < 6 | _ \<Rightarrow> False)
        then [(''password'', Senha_pelo_menos_6)]
      else [])"

definition confirm_password_test :: "ProfileForm \<Rightarrow> issue list" where
  "confirm_password_test f =
     (let val = pf_confirm_password f; password = pf_password f in
      if has_length password \<and> \<not> has_length val
        then [(''confirm_password'', Informe_a_confirmacao)]
      else if has_length password \<and> val \<noteq> password
        then [(''confirm_password'', Confirmacao_nao_confere)]
      else [])"

definition profileSchema :: "ProfileForm \<Rightarrow> issue list" where
  "profileSchema f =
     required Informe_o_nome ''name'' (pf_name f)
     @ required Informe_o_email ''email'' (pf_email f)
     @ password_test f
     @ confirm_password_test f"

text \<open>
  The earlier profile screen (\<^verbatim>\<open>Profile.tsx\<close>) states the same policy with library rules.
  \<^verbatim>\<open>transform((value) => value || null)\<close> turns the empty string into \<^verbatim>\<open>null\<close> before the
  rules run (a transform is not applied to \<^verbatim>\<open>undefined\<close>); \<^verbatim>\<open>when('password', ...)\<close> adds
  \<^verbatim>\<open>required\<close> to the confirmation when the password is truthy; the reference to the
  password is read from the transformed form.
\<close>

definition or_null :: "jsval \<Rightarrow> jsval" where
  "or_null v = (case v of Str s \<Rightarrow> if s = [] then Null else Str s | Null \<Rightarrow> Null
                | Undefined \<Rightarrow> Undefined)"

definition profileSchema_when :: "ProfileForm \<Rightarrow> issue list" where
  "profileSchema_when f =
     (let password = or_null (pf_password f);
          confirmPassword = or_null (pf_confirm_password f) in
      required Informe_o_nome ''name'' (pf_name f)
      @ required Informe_o_email ''email'' (pf_email f)
      @ min_length 6 Senha_pelo_menos_6 ''password'' password
      @ oneOf [password, Null] Confirmacao_nao_confere ''confirmPassword'' confirmPassword
      @ (if has_length password
         then required Informe_a_confirmacao ''confirmPassword'' confirmPassword else []))"

lemmas profile_defs =
  profileSchema_def password_test_def confirm_password_test_def profileSchema_when_def
  or_null_def has_length_def Let_def

lemma profileSchema_both_blank:
  assumes "\<not> blank (pf_name f)" and "\<not> blank (pf_email f)"
    and "blank (pf_password f)" and "blank (pf_confirm_password f)"
  shows "profileSchema f = []" and "profileSchema_when f = []"
  using assms
  by (cases "pf_name f"; cases "pf_email f"; cases "pf_password f"; cases "pf_confirm_password f";
      simp add: profile_defs yup_defs)+

lemma profileSchema_no_confirmation:
  assumes "has_length (pf_password f)" and "blank (pf_confirm_password f)"
  shows "profileSchema f \<noteq> []" and "profileSchema_when f \<noteq> []"
  using assms
  by (cases "pf_password f"; cases "pf_confirm_password f"; simp add: profile_defs yup_defs)+

lemma profileSchema_mismatch:
  assumes "has_length (pf_password f) \<or> has_length (pf_confirm_password f)"
    and "pf_confirm_password f \<noteq> pf_password f"
  shows "profileSchema f \<noteq> []" and "profileSchema_when f \<noteq> []"
  using assms
  by (cases "pf_password f"; cases "pf_confirm_password f"; simp add: profile_defs yup_defs)+

text \<open>
  C8. With name and e-mail filled in, a profile form whose new password and confirmation are
  both empty is accepted. A form with a password and an empty confirmation is rejected, and
  so is every form in which a password or a confirmation was entered and the two differ.
  Both versions of the profile schema agree on this.
\<close>

theorem profile_validation:
  "(\<not> blank (pf_name f) \<and> \<not> blank (pf_email f)
      \<and> blank (pf_password f) \<and> blank (pf_confirm_password f)
      \<longrightarrow> profileSchema f = [] \<and> profileSchema_when f = [])
   \<and> (has_length (pf_password g) \<and> blank (pf_confirm_password g)
      \<longrightarrow> profileSchema g \<noteq> [] \<and> profileSchema_when g \<noteq> [])
   \<and> ((has_length (pf_password h) \<or> has_length (pf_confirm_password h))
        \<and> pf_confirm_password h \<noteq> pf_password h
      \<longrightarrow> profileSchema h \<noteq> [] \<and> profileSchema_when h \<noteq> [])"
  using profileSchema_both_blank [of f] profileSchema_no_confirmation [of g]
    profileSchema_mismatch [of h]
  by blast

definition profile_form :: "jsval \<Rightarrow> jsval \<Rightarrow> ProfileForm" where
  "profile_form p c = \<lparr>pf_name = Str ''Ana'', pf_email = Str ''ana@x.com'',
     pf_old_password = Null, pf_password = p, pf_confirm_password = c\<rparr>"

theorem profile_validation_witness:
  "profileSchema (profile_form Null Null) = []
   \<and> profileSchema_when (profile_form (Str '''') Undefined) = []
   \<and> profileSchema (profile_form (Str ''123456'') (Str '''')) \<noteq> []
   \<and> profileSchema_when (profile_form (Str ''123456'') (Str '''')) \<noteq> []
   \<and> profileSchema (profile_form (Str ''123456'') (Str ''123457'')) \<noteq> []
   \<and> profileSchema_when (profile_form (Str ''123456'') (Str ''123457'')) \<noteq> []"
  using profile_validation
      [of "profile_form Null Null" "profile_form (Str ''123456'') (Str '''')"
          "profile_form (Str ''123456'') (Str ''123457'')"]
    profile_validation
      [of "profile_form (Str '''') Undefined" "profile_form (Str ''123456'') (Str '''')"
          "profile_form (Str ''123456'') (Str ''123457'')"]
  by (simp add: profile_form_def blank_def has_length_def)

section \<open>Changing the avatar\<close>

record ImagePickerAsset =
  asset_uri :: string
  asset_type :: string

text \<open>What the image picker returns: \<^verbatim>\<open>canceled\<close>, or the list \<^verbatim>\<open>assets\<close>.\<close>

datatype ImagePickerResult = Canceled | Selected "ImagePickerAsset list"

text \<open>
  What the collaborators of the profile screen do in one run: the picker, the file system
  (the size it reports for the file, in bytes, or none), the avatar request (the avatar
  reference of its answer) and the collaborators of the session context. The built-in
  \<^verbatim>\<open>toLowerCase\<close> of strings is taken from the environment as well: which letters it
  lowers is the language's table, not the repository's.
\<close>

record photo_env =
  launch :: "error + ImagePickerResult"
  info :: "error + nat option"
  patch :: "error + string option"
  toLowerCase :: "string \<Rightarrow> string"
  session_env :: env

definition launchImageLibraryAsync :: "error + ImagePickerResult \<Rightarrow> ImagePickerResult action" where
  "launchImageLibraryAsync answer w =
     (let w1 = emit (Await LaunchImageLibraryAsync) w in
      case answer of Inl e \<Rightarrow> (Inl e, w1) | Inr r \<Rightarrow> (Inr r, w1))"

definition getInfoAsync :: "error + nat option \<Rightarrow> string \<Rightarrow> (nat option) action" where
  "getInfoAsync answer uri w =
     (let w1 = emit (Await (GetInfoAsync uri)) w in
      case answer of Inl e \<Rightarrow> (Inl e, w1) | Inr r \<Rightarrow> (Inr r, w1))"

definition api_patch_users_avatar :: "error + string option \<Rightarrow> photoFile \<Rightarrow> (string option) action" where
  "api_patch_users_avatar answer file w =
     (let w1 = emit (Await (ApiPatchUsersAvatar file)) w in
      case answer of Inl e \<Rightarrow> (Inl e, w1) | Inr r \<Rightarrow> (Inr r, w1))"

text \<open>
  \<^verbatim>\<open>photoInfo.size && photoInfo.size / 1024 / 1024 > 5\<close>. The size is a whole number of bytes;
  dividing it by 1024 twice is exact in the arithmetic of the source, so the quotient is
  taken in the reals.
\<close>

definition too_large :: "nat option \<Rightarrow> bool" where
  "too_large sz = (case sz of None \<Rightarrow> False | Some n \<Rightarrow> n \<noteq> 0 \<and> real n / 1024 / 1024 > 5)"

text \<open>\<^verbatim>\<open>uri.split('.').pop()\<close>: what follows the last dot, or the whole string.\<close>

definition file_extension :: "string \<Rightarrow> string" where
  "file_extension uri = rev (takeWhile (\<lambda>c. c \<noteq> CHR ''.'') (rev uri))"

text \<open>
  The photo file of the upload: \<^verbatim>\<open>`${user.name}.${fileExtension}`.toLowerCase()\<close> as its
  name, the address of the asset, and \<^verbatim>\<open>`${type}/${fileExtension}`\<close> as its type.
\<close>

definition make_photoFile :: "(string \<Rightarrow> string) \<Rightarrow> UserDTO \<Rightarrow> ImagePickerAsset \<Rightarrow> photoFile" where
  "make_photoFile lower u a =
     (let fileExtension = file_extension (asset_uri a) in
      \<lparr>file_name = lower
          ((case name u of None \<Rightarrow> ''undefined'' | Some n \<Rightarrow> n) @ ''.'' @ fileExtension),
       file_uri = asset_uri a,
       file_type = asset_type a @ ''/'' @ fileExtension\<rparr>)"

text \<open>
  For the concrete runs below, whose names hold no other cased letters: the lowering of
  the letters A to Z.
\<close>

definition lower_char :: "char \<Rightarrow> char" where
  "lower_char c =
     (case map_of (zip ''ABCDEFGHIJKLMNOPQRSTUVWXYZ'' ''abcdefghijklmnopqrstuvwxyz'') c of
        Some l \<Rightarrow> l
      | None \<Rightarrow> c)"

text \<open>\<^verbatim>\<open>try { body } catch (error) { console.log(error) }\<close>.\<close>

definition catch_log :: "unit action \<Rightarrow> unit action" where
  "catch_log body w =
     (case body w of (Inl e, w') \<Rightarrow> (Inr (), emit (ConsoleLog e) w') | (Inr a, w') \<Rightarrow> (Inr a, w'))"

text \<open>
  The upload, reached only past the size guard. \<^verbatim>\<open>userUpdated\<close> is the user object of the
  context itself, so the assignment to its avatar changes the in-memory user before
  \<open>updateUserProfile\<close> is called.
\<close>

definition upload_photo :: "photo_env \<Rightarrow> ImagePickerAsset \<Rightarrow> unit action" where
  "upload_photo pe a w =
     bind_action (api_patch_users_avatar (patch pe) (make_photoFile (toLowerCase pe) (user w) a)) (\<lambda>av.
       seq_action (effect (\<lambda>w1. w1\<lparr>user := (user w1)\<lparr>avatar := av\<rparr>\<rparr>))
         (\<lambda>w2. seq_action (updateUserProfile (session_env pe) (user w2))
                  (effect (emit (ToastShow ToastPhotoUpdated))) w2)) w"

definition handleUserPhotoSelect :: "photo_env \<Rightarrow> unit action" where
  "handleUserPhotoSelect pe =
     try_finally
       (catch_log
         (seq_action (effect (emit (SetPhotoIsLoading True)))
           (bind_action (launchImageLibraryAsync (launch pe)) (\<lambda>photoSelected.
              case photoSelected of
                Canceled \<Rightarrow> ret ()
              | Selected assets \<Rightarrow>
                  (case assets of
                     [] \<Rightarrow> ret ()
                   | a # _ \<Rightarrow>
                       if asset_uri a = [] then ret ()
                       else bind_action (getInfoAsync (info pe) (asset_uri a)) (\<lambda>photoInfo_size.
                              if too_large photoInfo_size
                              then effect (emit (ToastShow ToastPhotoTooLarge))
                              else upload_photo pe a))))))
       (emit (SetPhotoIsLoading False))"

text \<open>A request to the remote API, or a write of the session context.\<close>

definition network_or_profile_write :: "event \<Rightarrow> bool" where
  "network_or_profile_write e =
     (case e of
        Await c \<Rightarrow>
          (case c of
             ApiPostSessions _ _ \<Rightarrow> True
           | ApiPostUsers _ _ _ \<Rightarrow> True
           | ApiPatchUsersAvatar _ \<Rightarrow> True
           | StorageUserSave _ \<Rightarrow> True
           | StorageAuthTokenSave _ \<Rightarrow> True
           | StorageUserRemove \<Rightarrow> True
           | StorageAuthTokenRemove \<Rightarrow> True
           | _ \<Rightarrow> False)
      | SetUser _ \<Rightarrow> True
      | SetAuthorization _ \<Rightarrow> True
      | _ \<Rightarrow> False)"

lemma too_large_bytes: "too_large (Some n) = (5 * 1024 * 1024 < n)"
proof -
  have "(real n / 1024 / 1024 > 5) = (real (5 * 1024 * 1024) < real n)"
    by (simp add: field_simps)
  also have "\<dots> = (5 * 1024 * 1024 < n)"
    by (simp only: of_nat_less_iff)
  finally show ?thesis
    by (auto simp: too_large_def)
qed

text \<open>
  C9. Whenever the file system reports for the selected file a size above 5 MB (5 times 1024
  times 1024 bytes), \<open>handleUserPhotoSelect\<close> issues no request to the remote API and no write
  of the session context: the in-memory user, the persisted keys and the header are what
  they were. With a file selected, the run is: picker, file information, the notice that
  the image is too large, and the photo-loading flag cleared.
\<close>

theorem avatar_size_guard:
  assumes "info pe = Inr (Some n)" and "5 * 1024 * 1024 < n"
  shows "filter network_or_profile_write (events_of (handleUserPhotoSelect pe) w) = []
    \<and> user (snd (handleUserPhotoSelect pe w)) = user w
    \<and> stored_user (snd (handleUserPhotoSelect pe w)) = stored_user w
    \<and> stored_token (snd (handleUserPhotoSelect pe w)) = stored_token w
    \<and> Authorization (snd (handleUserPhotoSelect pe w)) = Authorization w
    \<and> (case launch pe of
          Inr (Selected (a # rest)) \<Rightarrow>
            asset_uri a = []
            \<or> events_of (handleUserPhotoSelect pe) w
                = [SetPhotoIsLoading True, Await LaunchImageLibraryAsync,
                   Await (GetInfoAsync (asset_uri a)), ToastShow ToastPhotoTooLarge,
                   SetPhotoIsLoading False]
        | _ \<Rightarrow> True)"
proof (cases "launch pe")
  case (Inl e)
  then show ?thesis
    by (simp add: handleUserPhotoSelect_def launchImageLibraryAsync_def catch_log_def
          action_defs Let_def events_of_def network_or_profile_write_def)
next
  case (Inr r)
  show ?thesis
  proof (cases r)
    case Canceled
    with Inr show ?thesis
      by (simp add: handleUserPhotoSelect_def launchImageLibraryAsync_def catch_log_def
            action_defs Let_def events_of_def network_or_profile_write_def)
  next
    case (Selected assets)
    show ?thesis
    proof (cases assets)
      case Nil
      with Inr Selected show ?thesis
        by (simp add: handleUserPhotoSelect_def launchImageLibraryAsync_def catch_log_def
              action_defs Let_def events_of_def network_or_profile_write_def)
    next
      case (Cons a rest)
      have big: "too_large (Some n)"
        using assms(2) by (simp only: too_large_bytes)
      from Inr Selected Cons assms(1) big show ?thesis
        by (simp add: handleUserPhotoSelect_def launchImageLibraryAsync_def getInfoAsync_def
              catch_log_def action_defs Let_def events_of_def network_or_profile_write_def)
    qed
  qed
qed

definition big_photo :: photo_env where
  "big_photo = \<lparr>launch = Inr (Selected [\<lparr>asset_uri = ''file:///photo.jpg'', asset_type = ''image''\<rparr>]),
     info = Inr (Some 6000000), patch = Inr (Some ''avatar.jpg''),
     toLowerCase = map lower_char, session_env = all_ok no_answer\<rparr>"

theorem avatar_size_guard_witness:
  "info big_photo = Inr (Some 6000000)
   \<and> (5 * 1024 * 1024 < (6000000 :: nat))
   \<and> events_of (handleUserPhotoSelect big_photo) signed_in
       = [SetPhotoIsLoading True, Await LaunchImageLibraryAsync,
          Await (GetInfoAsync ''file:///photo.jpg''), ToastShow ToastPhotoTooLarge,
          SetPhotoIsLoading False]
   \<and> user (snd (handleUserPhotoSelect big_photo signed_in)) = ana
   \<and> stored_user (snd (handleUserPhotoSelect big_photo signed_in)) = Some ana"
proof -
  have i: "info big_photo = Inr (Some 6000000)"
    by (simp add: big_photo_def)
  have n: "5 * 1024 * 1024 < (6000000 :: nat)"
    by simp
  show ?thesis
    using i n avatar_size_guard [OF i n, of signed_in]
    by (simp add: big_photo_def signed_in_def)
qed

text \<open>Below the ceiling the same selection goes on to the upload and the profile update.\<close>

lemma small_photo_is_uploaded:
  "events_of (handleUserPhotoSelect (big_photo\<lparr>info := Inr (Some 4000000)\<rparr>)) signed_in
     = [SetPhotoIsLoading True, Await LaunchImageLibraryAsync,
        Await (GetInfoAsync ''file:///photo.jpg''),
        Await (ApiPatchUsersAvatar
          \<lparr>file_name = ''ana.jpg'', file_uri = ''file:///photo.jpg'', file_type = ''image/jpg''\<rparr>),
        SetUser (ana\<lparr>avatar := Some ''avatar.jpg''\<rparr>),
        Await (StorageUserSave (ana\<lparr>avatar := Some ''avatar.jpg''\<rparr>)),
        ToastShow ToastPhotoUpdated, SetPhotoIsLoading False]"
  by (simp add: handleUserPhotoSelect_def upload_photo_def launchImageLibraryAsync_def
        getInfoAsync_def api_patch_users_avatar_def catch_log_def updateUserProfile_def
        action_defs Let_def events_of_def big_photo_def signed_in_def all_ok_def no_answer_def
        too_large_bytes make_photoFile_def file_extension_def lower_char_def ana_def)

end
